theory Spec2Isabelle
  imports Complex_Main
begin

section \<open>The worker and its values\<close>

text \<open>
  The program is a Cloudflare worker: a \<^verbatim>\<open>fetch(request, env)\<close> handler that serves
  objects of a bucket on GET and keeps short links in a key-value namespace, which POST, PUT
  and DELETE change after a JWT check (\<^verbatim>\<open>verifyJWT\<close>, \<^verbatim>\<open>extractToken\<close>,
  \<^verbatim>\<open>requireAuth\<close>). Each of its functions is translated below under its own name.

  The values it handles come out of \<^verbatim>\<open>JSON.parse\<close>, \<^verbatim>\<open>request.json()\<close> and the
  environment, and are modelled by one datatype. A JSON number is a rational (the rounding
  of IEEE doubles is not modelled) and a string is a list of 8-bit characters. An object is
  the list of its own properties, each name once; \<open>JFunc\<close> stands for a built-in method
  read off a prototype.
\<close>

datatype jsval =
    JUndefined
  | JNull
  | JBool bool
  | JNum rat
  | JStr string
  | JArr "jsval list"
  | JObj "(string \<times> jsval) list"
  | JFunc string

text \<open>
  What the program can throw: \<^verbatim>\<open>new Error(msg)\<close>, the exceptions of the runtime, and
  \<open>StoreError\<close> for a call on the namespace or the bucket that fails.
\<close>

datatype error =
    Error string
  | TypeError
  | SyntaxError
  | DOMException
  | StoreError

text \<open>\<^verbatim>\<open>!v\<close> is true exactly for the falsy values.\<close>

fun truthy :: "jsval \<Rightarrow> bool" where
  "truthy JUndefined = False"
| "truthy JNull = False"
| "truthy (JBool b) = b"
| "truthy (JNum x) = (x \<noteq> 0)"
| "truthy (JStr s) = (s \<noteq> [])"
| "truthy (JArr xs) = True"
| "truthy (JObj fs) = True"
| "truthy (JFunc n) = True"

text \<open>
  \<^verbatim>\<open>a === b\<close>. Arrays, objects and functions compare by identity; every comparison of
  the program is between values of different origin (two parsed documents, or a parsed
  document and the environment), so two of them are never the same object.
\<close>

fun strict_eq :: "jsval \<Rightarrow> jsval \<Rightarrow> bool" where
  "strict_eq JUndefined JUndefined = True"
| "strict_eq JNull JNull = True"
| "strict_eq (JBool a) (JBool b) = (a = b)"
| "strict_eq (JNum a) (JNum b) = (a = b)"
| "strict_eq (JStr a) (JStr b) = (a = b)"
| "strict_eq a b = False"

text \<open>
  \<^verbatim>\<open>v.name\<close> for the property names the program reads (\<^verbatim>\<open>kid keys iss aud exp nbf sub
  key url\<close>). Reading a property of \<^verbatim>\<open>undefined\<close> or \<^verbatim>\<open>null\<close> throws a TypeError. Of
  those names, an array inherits \<^verbatim>\<open>keys\<close> and a string inherits \<^verbatim>\<open>sub\<close>; every other
  read of a missing property gives \<^verbatim>\<open>undefined\<close>.
\<close>

fun get_prop :: "jsval \<Rightarrow> string \<Rightarrow> error + jsval" where
  "get_prop JUndefined n = Inl TypeError"
| "get_prop JNull n = Inl TypeError"
| "get_prop (JObj fs) n = Inr (case map_of fs n of None \<Rightarrow> JUndefined | Some v \<Rightarrow> v)"
| "get_prop (JArr xs) n = Inr (if n = ''keys'' then JFunc ''keys'' else JUndefined)"
| "get_prop (JStr s) n = Inr (if n = ''sub'' then JFunc ''sub'' else JUndefined)"
| "get_prop (JBool b) n = Inr JUndefined"
| "get_prop (JNum x) n = Inr JUndefined"
| "get_prop (JFunc f) n = Inr JUndefined"

text \<open>\<^verbatim>\<open>a || b\<close>\<close>

definition js_or :: "jsval \<Rightarrow> jsval \<Rightarrow> jsval" where
  "js_or a b = (if truthy a then a else b)"

section \<open>Strings\<close>

text \<open>
  \<^verbatim>\<open>s.split(c)\<close> for a one-character separator: the pieces between the separators, so a
  string with \<open>n\<close> separators gives \<open>n + 1\<close> pieces and the empty string gives one empty
  piece.
\<close>

fun split :: "char \<Rightarrow> string \<Rightarrow> string list" where
  "split c [] = [[]]"
| "split c (x # xs) =
     (if x = c then [] # split c xs
      else (case split c xs of [] \<Rightarrow> [[x]] | y # ys \<Rightarrow> (x # y) # ys))"

text \<open>
  Destructuring \<^verbatim>\<open>const [a, b, c] = array\<close> and indexing \<^verbatim>\<open>array[i]\<close>: a position
  beyond the end gives \<^verbatim>\<open>undefined\<close>, here \<open>None\<close>.
\<close>

fun nth_opt :: "'a list \<Rightarrow> nat \<Rightarrow> 'a option" where
  "nth_opt [] i = None"
| "nth_opt (x # xs) 0 = Some x"
| "nth_opt (x # xs) (Suc i) = nth_opt xs i"

text \<open>\<^verbatim>\<open>s.replace(/-/g, '+').replace(/_/g, '/')\<close>: base64url to base64 alphabet.\<close>

definition replace_all :: "char \<Rightarrow> char \<Rightarrow> string \<Rightarrow> string" where
  "replace_all a b s = map (\<lambda>c. if c = a then b else c) s"

definition b64url_to_b64 :: "string \<Rightarrow> string" where
  "b64url_to_b64 s = replace_all (CHR ''_'') (CHR ''/'') (replace_all (CHR ''-'') (CHR ''+'') s)"

text \<open>A template literal prints a missing piece as the text \<^verbatim>\<open>undefined\<close>.\<close>

definition template_str :: "string option \<Rightarrow> string" where
  "template_str p = (case p of None \<Rightarrow> ''undefined'' | Some s \<Rightarrow> s)"

fun join :: "string \<Rightarrow> string list \<Rightarrow> string" where
  "join sep [] = []"
| "join sep [x] = x"
| "join sep (x # y # ys) = x @ sep @ join sep (y # ys)"

section \<open>The runtime\<close>

text \<open>
  The services of the Workers runtime that the program calls are parameters of the model:
  the HTTP client, base64 decoding, the JSON parser, WebCrypto and the clock. Each of them
  returns \<open>None\<close> where the JavaScript call throws. One request reads one instant
  \<open>Date_now\<close> (milliseconds).
\<close>

record http_response =
  ok :: bool
  json :: "jsval option"

record platform =
  http_fetch :: "jsval \<Rightarrow> http_response option"
  atob :: "string \<Rightarrow> string option"
  JSON_parse :: "string \<Rightarrow> jsval option"
  importKey :: "jsval \<Rightarrow> jsval option"
  verify :: "jsval \<Rightarrow> string \<Rightarrow> string \<Rightarrow> bool"
  Date_now :: int
  toISOString :: "int \<Rightarrow> string"
  Number_toString :: "rat \<Rightarrow> string"
  StringToNumber :: "string \<Rightarrow> rat option"
  header_value :: "string \<Rightarrow> string option"

text \<open>\<^verbatim>\<open>String(v)\<close>, the conversion applied to a store key and to a header value.\<close>

fun ToString :: "platform \<Rightarrow> jsval \<Rightarrow> string" where
  "ToString pf JUndefined = ''undefined''"
| "ToString pf JNull = ''null''"
| "ToString pf (JBool b) = (if b then ''true'' else ''false'')"
| "ToString pf (JNum x) = Number_toString pf x"
| "ToString pf (JStr s) = s"
| "ToString pf (JArr xs) =
     join '','' (map (\<lambda>x. if x = JUndefined \<or> x = JNull then [] else ToString pf x) xs)"
| "ToString pf (JObj fs) = ''[object Object]''"
| "ToString pf (JFunc n) = ''function '' @ n @ ''() { [native code] }''"

text \<open>\<^verbatim>\<open>Number(v)\<close>; \<open>None\<close> is NaN.\<close>

fun ToNumber :: "platform \<Rightarrow> jsval \<Rightarrow> rat option" where
  "ToNumber pf JUndefined = None"
| "ToNumber pf JNull = Some 0"
| "ToNumber pf (JBool b) = Some (if b then 1 else 0)"
| "ToNumber pf (JNum x) = Some x"
| "ToNumber pf (JStr s) = StringToNumber pf s"
| "ToNumber pf (JArr xs) = StringToNumber pf (ToString pf (JArr xs))"
| "ToNumber pf (JObj fs) = None"
| "ToNumber pf (JFunc n) = None"

text \<open>\<^verbatim>\<open>v < t\<close> and \<^verbatim>\<open>v > t\<close> against a number \<open>t\<close>: false when \<open>v\<close> converts to NaN.\<close>

definition js_lt :: "platform \<Rightarrow> jsval \<Rightarrow> rat \<Rightarrow> bool" where
  "js_lt pf v t = (case ToNumber pf v of None \<Rightarrow> False | Some x \<Rightarrow> x < t)"

definition js_gt :: "platform \<Rightarrow> jsval \<Rightarrow> rat \<Rightarrow> bool" where
  "js_gt pf v t = (case ToNumber pf v of None \<Rightarrow> False | Some x \<Rightarrow> x > t)"

text \<open>
  \<^verbatim>\<open>JSON.stringify(v)\<close>. A string is quoted with the escapes of the standard; a property
  whose value is \<^verbatim>\<open>undefined\<close> or a function is left out of an object and printed as
  \<^verbatim>\<open>null\<close> in an array; \<open>None\<close> is the result \<^verbatim>\<open>undefined\<close>.
\<close>

definition hex_digit :: "nat \<Rightarrow> char" where
  "hex_digit n = ''0123456789abcdef'' ! (n mod 16)"

definition quote_char :: "char \<Rightarrow> string" where
  "quote_char c =
     (if c = CHR 0x22 then [CHR 0x5C, CHR 0x22]
      else if c = CHR 0x5C then [CHR 0x5C, CHR 0x5C]
      else if c = CHR 0x08 then [CHR 0x5C, CHR ''b'']
      else if c = CHR 0x0C then [CHR 0x5C, CHR ''f'']
      else if c = CHR 0x0A then [CHR 0x5C, CHR ''n'']
      else if c = CHR 0x0D then [CHR 0x5C, CHR ''r'']
      else if c = CHR 0x09 then [CHR 0x5C, CHR ''t'']
      else if (of_char c :: nat) < 32
        then [CHR 0x5C, CHR ''u'', CHR ''0'', CHR ''0'',
              hex_digit (of_char c div 16), hex_digit (of_char c)]
      else [c])"

definition quote :: "string \<Rightarrow> string" where
  "quote s = [CHR 0x22] @ concat (map quote_char s) @ [CHR 0x22]"

fun JSON_stringify :: "platform \<Rightarrow> jsval \<Rightarrow> string option"
  and stringify_props :: "platform \<Rightarrow> (string \<times> jsval) list \<Rightarrow> string list"
  and stringify_elems :: "platform \<Rightarrow> jsval list \<Rightarrow> string list" where
  "JSON_stringify pf JUndefined = None"
| "JSON_stringify pf (JFunc n) = None"
| "JSON_stringify pf JNull = Some ''null''"
| "JSON_stringify pf (JBool b) = Some (if b then ''true'' else ''false'')"
| "JSON_stringify pf (JNum x) = Some (Number_toString pf x)"
| "JSON_stringify pf (JStr s) = Some (quote s)"
| "JSON_stringify pf (JArr xs) = Some (''['' @ join '','' (stringify_elems pf xs) @ '']'')"
| "JSON_stringify pf (JObj fs) = Some (''{'' @ join '','' (stringify_props pf fs) @ ''}'')"
| "stringify_props pf [] = []"
| "stringify_props pf ((k, v) # fs) =
     (case JSON_stringify pf v of
        None \<Rightarrow> stringify_props pf fs
      | Some s \<Rightarrow> (quote k @ '':'' @ s) # stringify_props pf fs)"
| "stringify_elems pf [] = []"
| "stringify_elems pf (x # xs) =
     (case JSON_stringify pf x of None \<Rightarrow> ''null'' | Some s \<Rightarrow> s) # stringify_elems pf xs"

section \<open>Exceptions\<close>

text \<open>
  A computation that may throw returns \<open>Inl\<close> of what it threw. \<open>bindE\<close> runs the next
  statement unless the previous one threw; \<open>or_throw\<close> turns a runtime call that failed
  into the exception it raises.
\<close>

definition bindE :: "error + 'a \<Rightarrow> ('a \<Rightarrow> error + 'b) \<Rightarrow> error + 'b" where
  "bindE m f = (case m of Inl e \<Rightarrow> Inl e | Inr x \<Rightarrow> f x)"

definition or_throw :: "'a option \<Rightarrow> error \<Rightarrow> error + 'a" where
  "or_throw r e = (case r of None \<Rightarrow> Inl e | Some x \<Rightarrow> Inr x)"

section \<open>The environment\<close>

text \<open>
  \<^verbatim>\<open>env\<close>: the three configuration variables and the two bindings. A binding that is not
  configured is \<open>None\<close>. The key-value namespace maps a key to the stored text; the bucket
  maps a key to an object, whose \<open>body\<close> is \<open>None\<close> when the object carries no body.
\<close>

record r2_object =
  body :: "string option"
  httpMetadata :: "(string \<times> string) list"
  httpEtag :: string

record env =
  JWKS_URL :: jsval
  JWT_ISSUER :: jsval
  JWT_AUDIENCE :: jsval
  SHORT_LINKS :: "(string \<rightharpoonup> string) option"
  PUBLIC_BUCKET :: "(string \<rightharpoonup> r2_object) option"

section \<open>verifyJWT\<close>

text \<open>\<^verbatim>\<open>JSON.parse(atob(part.replace(/-/g, '+').replace(/_/g, '/')))\<close>\<close>

definition decode_segment :: "platform \<Rightarrow> string option \<Rightarrow> error + jsval" where
  "decode_segment pf part =
     bindE (or_throw part TypeError) (\<lambda>s.
     bindE (or_throw (atob pf (b64url_to_b64 s)) DOMException) (\<lambda>t.
     or_throw (JSON_parse pf t) SyntaxError))"

text \<open>\<^verbatim>\<open>keys.find(k => k.kid === header.kid)\<close>\<close>

fun find_kid :: "jsval \<Rightarrow> jsval list \<Rightarrow> error + jsval" where
  "find_kid header [] = Inr JUndefined"
| "find_kid header (k # ks) =
     (case get_prop k ''kid'' of
        Inl e \<Rightarrow> Inl e
      | Inr a \<Rightarrow>
          (case get_prop header ''kid'' of
             Inl e \<Rightarrow> Inl e
           | Inr b \<Rightarrow> if strict_eq a b then Inr k else find_kid header ks))"

definition keys_find :: "jsval \<Rightarrow> jsval \<Rightarrow> error + jsval" where
  "keys_find header keys = (case keys of JArr ks \<Rightarrow> find_kid header ks | _ \<Rightarrow> Inl TypeError)"

text \<open>The body of the \<^verbatim>\<open>try\<close> block of \<^verbatim>\<open>verifyJWT\<close>, statement by statement.\<close>

definition verifyJWT_try :: "platform \<Rightarrow> string \<Rightarrow> env \<Rightarrow> error + jsval" where
  "verifyJWT_try pf token env =
     bindE (or_throw (http_fetch pf (JWKS_URL env)) TypeError) (\<lambda>jwksResponse.
     if \<not> ok jwksResponse then Inl (Error ''Failed to fetch JWKS'') else
     bindE (or_throw (json jwksResponse) SyntaxError) (\<lambda>jwks.
     bindE (decode_segment pf (nth_opt (split (CHR ''.'') token) 0)) (\<lambda>header.
     bindE (get_prop jwks ''keys'') (\<lambda>keys.
     bindE (keys_find header keys) (\<lambda>key.
     if \<not> truthy key then Inl (Error ''Key not found in JWKS'') else
     bindE (or_throw (importKey pf key) DOMException) (\<lambda>cryptoKey.
     let headerPart = nth_opt (split (CHR ''.'') token) 0;
         payloadPart = nth_opt (split (CHR ''.'') token) 1;
         signaturePart = nth_opt (split (CHR ''.'') token) 2;
         data = template_str headerPart @ ''.'' @ template_str payloadPart
     in
     bindE (or_throw signaturePart TypeError) (\<lambda>sp.
     bindE (or_throw (atob pf (b64url_to_b64 sp)) DOMException) (\<lambda>signature.
     if \<not> verify pf cryptoKey signature data then Inl (Error ''Invalid signature'') else
     bindE (decode_segment pf payloadPart) (\<lambda>payload.
     bindE (get_prop payload ''iss'') (\<lambda>iss.
     if \<not> strict_eq iss (JWT_ISSUER env) then Inl (Error ''Invalid issuer'') else
     bindE (get_prop payload ''aud'') (\<lambda>aud.
     if \<not> strict_eq aud (JWT_AUDIENCE env) then Inl (Error ''Invalid audience'') else
     bindE (get_prop payload ''exp'') (\<lambda>exp.
     if truthy exp \<and> js_lt pf exp (of_int (Date_now pf) / 1000)
       then Inl (Error ''Token expired'') else
     bindE (get_prop payload ''nbf'') (\<lambda>nbf.
     if truthy nbf \<and> js_gt pf nbf (of_int (Date_now pf) / 1000)
       then Inl (Error ''Token not yet valid'') else
     Inr payload)))))))))))))"

text \<open>\<^verbatim>\<open>verifyJWT\<close>: the \<^verbatim>\<open>catch\<close> logs whatever was thrown and returns \<^verbatim>\<open>null\<close>.\<close>

definition verifyJWT :: "platform \<Rightarrow> string \<Rightarrow> env \<Rightarrow> jsval" where
  "verifyJWT pf token env =
     (case verifyJWT_try pf token env of Inl error \<Rightarrow> JNull | Inr payload \<Rightarrow> payload)"

section \<open>Requests, responses and the auth gate\<close>

text \<open>
  A request as the handler reads it: the method, \<^verbatim>\<open>new URL(request.url).pathname\<close>,
  \<^verbatim>\<open>request.headers.get('Authorization')\<close> (\<open>None\<close> is \<^verbatim>\<open>null\<close>) and the result of
  \<^verbatim>\<open>request.json()\<close> (\<open>None\<close> when it throws).
\<close>

record request =
  "method" :: string
  pathname :: string
  authorization :: "string option"
  json_body :: "jsval option"

datatype body_init = NoBody | Text string | Stream string

record response =
  status :: nat
  headers :: "(string \<times> string) list"
  content :: body_init

definition extractToken :: "request \<Rightarrow> string option" where
  "extractToken request =
     (case authorization request of
        None \<Rightarrow> None
      | Some authHeader \<Rightarrow>
          if authHeader = [] then None
          else let parts = split (CHR '' '') authHeader in
            if length parts \<noteq> 2 \<or> nth_opt parts 0 \<noteq> Some ''Bearer'' then None
            else nth_opt parts 1)"

text \<open>\<^verbatim>\<open>requireAuth\<close> returns a \<^verbatim>\<open>Response\<close> (\<open>Inl\<close>) or the payload (\<open>Inr\<close>).\<close>

definition requireAuth :: "platform \<Rightarrow> request \<Rightarrow> env \<Rightarrow> response + jsval" where
  "requireAuth pf request env =
     (case extractToken request of
        None \<Rightarrow>
          Inl \<lparr>status = 401, headers = [], content = Text ''Unauthorized: No token provided''\<rparr>
      | Some token \<Rightarrow>
          if token = [] then
            Inl \<lparr>status = 401, headers = [], content = Text ''Unauthorized: No token provided''\<rparr>
          else let payload = verifyJWT pf token env in
            if \<not> truthy payload then
              Inl \<lparr>status = 401, headers = [], content = Text ''Unauthorized: Invalid token''\<rparr>
            else Inr payload)"

section \<open>The handler, when the stores answer\<close>

text \<open>
  This section translates the handler for a request during which every call on the
  namespace and on the bucket answers: the namespace and the bucket are maps. The section
  after it translates the handler again with store calls that may fail, and
  \<open>fetch_io_no_faults\<close> shows that the two agree when none does.
\<close>

text \<open>A value fetched from the store is tested with \<^verbatim>\<open>if (value)\<close>: present and not empty.\<close>

definition truthy_text :: "string option \<Rightarrow> bool" where
  "truthy_text r = (case r of None \<Rightarrow> False | Some s \<Rightarrow> s \<noteq> [])"

text \<open>\<^verbatim>\<open>new Response(JSON.stringify(v), ...)\<close>: the body made from a serialised value.\<close>

definition json_content :: "platform \<Rightarrow> jsval \<Rightarrow> body_init" where
  "json_content pf v = (case JSON_stringify pf v of None \<Rightarrow> NoBody | Some s \<Rightarrow> Text s)"

text \<open>\<^verbatim>\<open>headers.set(name, value)\<close>\<close>

definition headers_set :: "string \<Rightarrow> string \<Rightarrow> (string \<times> string) list \<Rightarrow> (string \<times> string) list" where
  "headers_set n v hs = filter (\<lambda>h. fst h \<noteq> n) hs @ [(n, v)]"

text \<open>
  GET, first part: the short-link lookup. The \<^verbatim>\<open>try\<close> block holds the parse of the stored
  text, the read of \<^verbatim>\<open>linkData.url\<close> and the construction of the redirect, whose
  \<^verbatim>\<open>Location\<close> value the runtime validates; whatever it throws is logged and the handler
  goes on to the bucket. \<open>None\<close>: no redirect was returned.
\<close>

definition short_link_redirect :: "platform \<Rightarrow> env \<Rightarrow> string \<Rightarrow> response option" where
  "short_link_redirect pf env key =
     (case SHORT_LINKS env of
        None \<Rightarrow> None
      | Some kv \<Rightarrow>
          let shortLink = kv key in
          if \<not> truthy_text shortLink then None
          else
            (case bindE (or_throw shortLink TypeError) (\<lambda>text.
                  bindE (or_throw (JSON_parse pf text) SyntaxError) (\<lambda>linkData.
                  bindE (get_prop linkData ''url'') (\<lambda>url.
                  bindE (or_throw (header_value pf (ToString pf url)) TypeError) (\<lambda>location.
                  Inr \<lparr>status = 302, headers = [(''Location'', location)], content = NoBody\<rparr>))))
             of Inl e \<Rightarrow> None | Inr r \<Rightarrow> Some r))"

text \<open>GET, second part: the bucket. Calling \<^verbatim>\<open>get\<close> on a missing binding throws.\<close>

definition bucket_get :: "env \<Rightarrow> string \<Rightarrow> error + response" where
  "bucket_get env key =
     bindE (or_throw (PUBLIC_BUCKET env) TypeError) (\<lambda>bucket.
     case bucket key of
       None \<Rightarrow> Inr \<lparr>status = 404, headers = [], content = Text (''Object Not Found: '' @ key)\<rparr>
     | Some object \<Rightarrow>
         (case body object of
            None \<Rightarrow>
              Inr \<lparr>status = 404, headers = [], content = Text (''Object Not Found: '' @ key)\<rparr>
          | Some bytes \<Rightarrow>
              Inr \<lparr>status = 200,
                   headers = headers_set ''etag'' (httpEtag object) (httpMetadata object),
                   content = Stream bytes\<rparr>))"

definition source_url :: string where
  "source_url = ''https://github.com/pkoch/pkoch-public-bucket''"

definition handle_GET :: "platform \<Rightarrow> request \<Rightarrow> env \<Rightarrow> error + response" where
  "handle_GET pf request env =
     (let key = drop 1 (pathname request) in
      if key = [] then
        Inr \<lparr>status = 302, headers = [(''Location'', source_url)],
             content = Text (''I need a key. Check the source at '' @ source_url @ [CHR 0x0A])\<rparr>
      else
        (case short_link_redirect pf env key of
           Some r \<Rightarrow> Inr r
         | None \<Rightarrow> bucket_get env key))"

definition not_configured :: response where
  "not_configured = \<lparr>status = 503, headers = [], content = Text ''Short links not configured''\<rparr>"

definition missing_fields :: response where
  "missing_fields =
     \<lparr>status = 400, headers = [], content = Text ''Missing required fields: key and url''\<rparr>"

definition invalid_body :: response where
  "invalid_body = \<lparr>status = 400, headers = [], content = Text ''Invalid request body''\<rparr>"

text \<open>
  The \<^verbatim>\<open>try\<close> block of POST: the response and the namespace it leaves. An exception thrown
  in it becomes \<open>invalid_body\<close> in \<open>handle_POST\<close>.
\<close>

definition POST_try ::
  "platform \<Rightarrow> request \<Rightarrow> (string \<rightharpoonup> string) \<Rightarrow> jsval
     \<Rightarrow> error + response \<times> (string \<rightharpoonup> string)" where
  "POST_try pf request kv authResult =
     bindE (or_throw (json_body request) SyntaxError) (\<lambda>body.
     bindE (get_prop body ''key'') (\<lambda>body_key.
     if \<not> truthy body_key then Inr (missing_fields, kv) else
     bindE (get_prop body ''url'') (\<lambda>body_url.
     if \<not> truthy body_url then Inr (missing_fields, kv) else
     let existing = kv (ToString pf body_key) in
     if truthy_text existing then
       Inr (\<lparr>status = 409, headers = [], content = Text ''Short link already exists''\<rparr>, kv)
     else
     bindE (get_prop authResult ''sub'') (\<lambda>sub.
     let linkData = JObj [(''url'', body_url),
                          (''created'', JStr (toISOString pf (Date_now pf))),
                          (''createdBy'', js_or sub (JStr ''unknown''))]
     in
     bindE (or_throw (JSON_stringify pf linkData) TypeError) (\<lambda>text.
     Inr (\<lparr>status = 201, headers = [(''Content-Type'', ''application/json'')],
           content = json_content pf
             (JObj [(''success'', JBool True), (''key'', body_key), (''url'', body_url)])\<rparr>,
          kv(ToString pf body_key \<mapsto> text)))))))"

definition handle_POST :: "platform \<Rightarrow> request \<Rightarrow> env \<Rightarrow> response \<times> env" where
  "handle_POST pf request env =
     (case SHORT_LINKS env of
        None \<Rightarrow> (not_configured, env)
      | Some kv \<Rightarrow>
          (case requireAuth pf request env of
             Inl authResult \<Rightarrow> (authResult, env)
           | Inr authResult \<Rightarrow>
               (case POST_try pf request kv authResult of
                  Inl error \<Rightarrow> (invalid_body, env)
                | Inr (r, kv') \<Rightarrow> (r, env\<lparr>SHORT_LINKS := Some kv'\<rparr>))))"

text \<open>The \<^verbatim>\<open>try\<close> block of PUT.\<close>

definition PUT_try ::
  "platform \<Rightarrow> request \<Rightarrow> (string \<rightharpoonup> string) \<Rightarrow> jsval
     \<Rightarrow> error + response \<times> (string \<rightharpoonup> string)" where
  "PUT_try pf request kv authResultPut =
     bindE (or_throw (json_body request) SyntaxError) (\<lambda>bodyPut.
     bindE (get_prop bodyPut ''key'') (\<lambda>body_key.
     if \<not> truthy body_key then Inr (missing_fields, kv) else
     bindE (get_prop bodyPut ''url'') (\<lambda>body_url.
     if \<not> truthy body_url then Inr (missing_fields, kv) else
     let existingPut = kv (ToString pf body_key) in
     if \<not> truthy_text existingPut then
       Inr (\<lparr>status = 404, headers = [], content = Text ''Short link not found''\<rparr>, kv)
     else
     bindE (get_prop authResultPut ''sub'') (\<lambda>sub.
     let linkDataPut = JObj [(''url'', body_url),
                             (''updated'', JStr (toISOString pf (Date_now pf))),
                             (''updatedBy'', js_or sub (JStr ''unknown''))]
     in
     bindE (or_throw (JSON_stringify pf linkDataPut) TypeError) (\<lambda>text.
     Inr (\<lparr>status = 200, headers = [(''Content-Type'', ''application/json'')],
           content = json_content pf
             (JObj [(''success'', JBool True), (''key'', body_key), (''url'', body_url)])\<rparr>,
          kv(ToString pf body_key \<mapsto> text)))))))"

definition handle_PUT :: "platform \<Rightarrow> request \<Rightarrow> env \<Rightarrow> response \<times> env" where
  "handle_PUT pf request env =
     (case SHORT_LINKS env of
        None \<Rightarrow> (not_configured, env)
      | Some kv \<Rightarrow>
          (case requireAuth pf request env of
             Inl authResultPut \<Rightarrow> (authResultPut, env)
           | Inr authResultPut \<Rightarrow>
               (case PUT_try pf request kv authResultPut of
                  Inl error \<Rightarrow> (invalid_body, env)
                | Inr (r, kv') \<Rightarrow> (r, env\<lparr>SHORT_LINKS := Some kv'\<rparr>))))"

definition handle_DELETE :: "platform \<Rightarrow> request \<Rightarrow> env \<Rightarrow> response \<times> env" where
  "handle_DELETE pf request env =
     (let key = drop 1 (pathname request) in
      case SHORT_LINKS env of
        None \<Rightarrow> (not_configured, env)
      | Some kv \<Rightarrow>
          (case requireAuth pf request env of
             Inl authResultDelete \<Rightarrow> (authResultDelete, env)
           | Inr authResultDelete \<Rightarrow>
               if key = [] then
                 (\<lparr>status = 400, headers = [], content = Text ''Missing key''\<rparr>, env)
               else
                 let existingDelete = kv key in
                 if \<not> truthy_text existingDelete then
                   (\<lparr>status = 404, headers = [], content = Text ''Short link not found''\<rparr>, env)
                 else
                   (\<lparr>status = 200, headers = [(''Content-Type'', ''application/json'')],
                     content = json_content pf
                       (JObj [(''success'', JBool True), (''key'', JStr key)])\<rparr>,
                    env\<lparr>SHORT_LINKS := Some (kv(key := None))\<rparr>)))"

text \<open>
  \<^verbatim>\<open>fetch(request, env)\<close>: what the handler returns (\<open>Inr\<close>) or the exception that leaves
  it (\<open>Inl\<close>), and the environment with the namespace as the request left it.
\<close>

definition fetch :: "platform \<Rightarrow> request \<Rightarrow> env \<Rightarrow> (error + response) \<times> env" where
  "fetch pf request env =
     (if method request = ''GET'' then (handle_GET pf request env, env)
      else if method request = ''POST'' then
        (case handle_POST pf request env of (r, env') \<Rightarrow> (Inr r, env'))
      else if method request = ''PUT'' then
        (case handle_PUT pf request env of (r, env') \<Rightarrow> (Inr r, env'))
      else if method request = ''DELETE'' then
        (case handle_DELETE pf request env of (r, env') \<Rightarrow> (Inr r, env'))
      else
        (Inr \<lparr>status = 405, headers = [(''Allow'', ''GET, POST, PUT, DELETE'')],
              content = Text ''Method Not Allowed''\<rparr>, env))"

section \<open>The handler, with store calls that may fail\<close>

text \<open>
  A call on the namespace or on the bucket is a request to a remote service, and it can be
  rejected: the namespace refuses a key of more than 512 bytes, for one. \<open>store_faults\<close>
  says which calls fail during one request. A failed call throws; it reads and changes
  nothing.
\<close>

record store_faults =
  KV_get_fails :: "string \<Rightarrow> bool"
  KV_put_fails :: "string \<Rightarrow> string \<Rightarrow> bool"
  KV_delete_fails :: "string \<Rightarrow> bool"
  R2_get_fails :: "string \<Rightarrow> bool"

definition no_faults :: store_faults where
  "no_faults = \<lparr>KV_get_fails = (\<lambda>k. False), KV_put_fails = (\<lambda>k v. False),
                 KV_delete_fails = (\<lambda>k. False), R2_get_fails = (\<lambda>k. False)\<rparr>"

text \<open>\<^verbatim>\<open>await env.SHORT_LINKS.get(key)\<close>, \<^verbatim>\<open>.put(key, value)\<close>, \<^verbatim>\<open>.delete(key)\<close>\<close>

definition KV_get ::
  "store_faults \<Rightarrow> (string \<rightharpoonup> string) \<Rightarrow> string \<Rightarrow> error + string option" where
  "KV_get st kv key = (if KV_get_fails st key then Inl StoreError else Inr (kv key))"

definition KV_put ::
  "store_faults \<Rightarrow> (string \<rightharpoonup> string) \<Rightarrow> string \<Rightarrow> string
     \<Rightarrow> error + (string \<rightharpoonup> string)" where
  "KV_put st kv key v = (if KV_put_fails st key v then Inl StoreError else Inr (kv(key \<mapsto> v)))"

definition KV_delete ::
  "store_faults \<Rightarrow> (string \<rightharpoonup> string) \<Rightarrow> string \<Rightarrow> error + (string \<rightharpoonup> string)" where
  "KV_delete st kv key =
     (if KV_delete_fails st key then Inl StoreError else Inr (kv(key := None)))"

text \<open>\<^verbatim>\<open>await env.PUBLIC_BUCKET.get(key)\<close>, on a bucket that is bound.\<close>

definition R2_get ::
  "store_faults \<Rightarrow> (string \<rightharpoonup> r2_object) \<Rightarrow> string \<Rightarrow> error + r2_object option" where
  "R2_get st bucket key = (if R2_get_fails st key then Inl StoreError else Inr (bucket key))"

text \<open>
  GET, first part. The lookup \<^verbatim>\<open>env.SHORT_LINKS.get(key)\<close> is awaited before the
  \<^verbatim>\<open>try\<close>: when it fails the exception leaves the handler (\<open>Inl\<close>). \<open>Inr None\<close>: the
  handler goes on to the bucket.
\<close>

definition short_link_redirect_io ::
  "store_faults \<Rightarrow> platform \<Rightarrow> env \<Rightarrow> string \<Rightarrow> error + response option" where
  "short_link_redirect_io st pf env key =
     (case SHORT_LINKS env of
        None \<Rightarrow> Inr None
      | Some kv \<Rightarrow>
          bindE (KV_get st kv key) (\<lambda>shortLink.
          if \<not> truthy_text shortLink then Inr None
          else
            (case bindE (or_throw shortLink TypeError) (\<lambda>text.
                  bindE (or_throw (JSON_parse pf text) SyntaxError) (\<lambda>linkData.
                  bindE (get_prop linkData ''url'') (\<lambda>url.
                  bindE (or_throw (header_value pf (ToString pf url)) TypeError) (\<lambda>location.
                  Inr \<lparr>status = 302, headers = [(''Location'', location)], content = NoBody\<rparr>))))
             of Inl e \<Rightarrow> Inr None | Inr r \<Rightarrow> Inr (Some r))))"

text \<open>GET, second part: the bucket, whose \<^verbatim>\<open>get\<close> is outside any \<^verbatim>\<open>try\<close> as well.\<close>

definition bucket_get_io :: "store_faults \<Rightarrow> env \<Rightarrow> string \<Rightarrow> error + response" where
  "bucket_get_io st env key =
     bindE (or_throw (PUBLIC_BUCKET env) TypeError) (\<lambda>bucket.
     bindE (R2_get st bucket key) (\<lambda>found.
     case found of
       None \<Rightarrow> Inr \<lparr>status = 404, headers = [], content = Text (''Object Not Found: '' @ key)\<rparr>
     | Some object \<Rightarrow>
         (case body object of
            None \<Rightarrow>
              Inr \<lparr>status = 404, headers = [], content = Text (''Object Not Found: '' @ key)\<rparr>
          | Some bytes \<Rightarrow>
              Inr \<lparr>status = 200,
                   headers = headers_set ''etag'' (httpEtag object) (httpMetadata object),
                   content = Stream bytes\<rparr>)))"

definition handle_GET_io ::
  "store_faults \<Rightarrow> platform \<Rightarrow> request \<Rightarrow> env \<Rightarrow> error + response" where
  "handle_GET_io st pf request env =
     (let key = drop 1 (pathname request) in
      if key = [] then
        Inr \<lparr>status = 302, headers = [(''Location'', source_url)],
             content = Text (''I need a key. Check the source at '' @ source_url @ [CHR 0x0A])\<rparr>
      else
        bindE (short_link_redirect_io st pf env key) (\<lambda>redirect.
        case redirect of
          Some r \<Rightarrow> Inr r
        | None \<Rightarrow> bucket_get_io st env key))"

text \<open>
  The \<^verbatim>\<open>try\<close> block of POST. The \<^verbatim>\<open>get\<close> and the \<^verbatim>\<open>put\<close> are inside it, so a store
  call that fails ends in \<open>invalid_body\<close> like any other exception thrown there.
\<close>

definition POST_try_io ::
  "store_faults \<Rightarrow> platform \<Rightarrow> request \<Rightarrow> (string \<rightharpoonup> string) \<Rightarrow> jsval
     \<Rightarrow> error + response \<times> (string \<rightharpoonup> string)" where
  "POST_try_io st pf request kv authResult =
     bindE (or_throw (json_body request) SyntaxError) (\<lambda>body.
     bindE (get_prop body ''key'') (\<lambda>body_key.
     if \<not> truthy body_key then Inr (missing_fields, kv) else
     bindE (get_prop body ''url'') (\<lambda>body_url.
     if \<not> truthy body_url then Inr (missing_fields, kv) else
     bindE (KV_get st kv (ToString pf body_key)) (\<lambda>existing.
     if truthy_text existing then
       Inr (\<lparr>status = 409, headers = [], content = Text ''Short link already exists''\<rparr>, kv)
     else
     bindE (get_prop authResult ''sub'') (\<lambda>sub.
     let linkData = JObj [(''url'', body_url),
                          (''created'', JStr (toISOString pf (Date_now pf))),
                          (''createdBy'', js_or sub (JStr ''unknown''))]
     in
     bindE (or_throw (JSON_stringify pf linkData) TypeError) (\<lambda>text.
     bindE (KV_put st kv (ToString pf body_key) text) (\<lambda>kv'.
     Inr (\<lparr>status = 201, headers = [(''Content-Type'', ''application/json'')],
           content = json_content pf
             (JObj [(''success'', JBool True), (''key'', body_key), (''url'', body_url)])\<rparr>,
          kv'))))))))"

definition handle_POST_io ::
  "store_faults \<Rightarrow> platform \<Rightarrow> request \<Rightarrow> env \<Rightarrow> response \<times> env" where
  "handle_POST_io st pf request env =
     (case SHORT_LINKS env of
        None \<Rightarrow> (not_configured, env)
      | Some kv \<Rightarrow>
          (case requireAuth pf request env of
             Inl authResult \<Rightarrow> (authResult, env)
           | Inr authResult \<Rightarrow>
               (case POST_try_io st pf request kv authResult of
                  Inl error \<Rightarrow> (invalid_body, env)
                | Inr (r, kv') \<Rightarrow> (r, env\<lparr>SHORT_LINKS := Some kv'\<rparr>))))"

text \<open>The \<^verbatim>\<open>try\<close> block of PUT.\<close>

definition PUT_try_io ::
  "store_faults \<Rightarrow> platform \<Rightarrow> request \<Rightarrow> (string \<rightharpoonup> string) \<Rightarrow> jsval
     \<Rightarrow> error + response \<times> (string \<rightharpoonup> string)" where
  "PUT_try_io st pf request kv authResultPut =
     bindE (or_throw (json_body request) SyntaxError) (\<lambda>bodyPut.
     bindE (get_prop bodyPut ''key'') (\<lambda>body_key.
     if \<not> truthy body_key then Inr (missing_fields, kv) else
     bindE (get_prop bodyPut ''url'') (\<lambda>body_url.
     if \<not> truthy body_url then Inr (missing_fields, kv) else
     bindE (KV_get st kv (ToString pf body_key)) (\<lambda>existingPut.
     if \<not> truthy_text existingPut then
       Inr (\<lparr>status = 404, headers = [], content = Text ''Short link not found''\<rparr>, kv)
     else
     bindE (get_prop authResultPut ''sub'') (\<lambda>sub.
     let linkDataPut = JObj [(''url'', body_url),
                             (''updated'', JStr (toISOString pf (Date_now pf))),
                             (''updatedBy'', js_or sub (JStr ''unknown''))]
     in
     bindE (or_throw (JSON_stringify pf linkDataPut) TypeError) (\<lambda>text.
     bindE (KV_put st kv (ToString pf body_key) text) (\<lambda>kv'.
     Inr (\<lparr>status = 200, headers = [(''Content-Type'', ''application/json'')],
           content = json_content pf
             (JObj [(''success'', JBool True), (''key'', body_key), (''url'', body_url)])\<rparr>,
          kv'))))))))"

definition handle_PUT_io ::
  "store_faults \<Rightarrow> platform \<Rightarrow> request \<Rightarrow> env \<Rightarrow> response \<times> env" where
  "handle_PUT_io st pf request env =
     (case SHORT_LINKS env of
        None \<Rightarrow> (not_configured, env)
      | Some kv \<Rightarrow>
          (case requireAuth pf request env of
             Inl authResultPut \<Rightarrow> (authResultPut, env)
           | Inr authResultPut \<Rightarrow>
               (case PUT_try_io st pf request kv authResultPut of
                  Inl error \<Rightarrow> (invalid_body, env)
                | Inr (r, kv') \<Rightarrow> (r, env\<lparr>SHORT_LINKS := Some kv'\<rparr>))))"

text \<open>
  DELETE has no \<^verbatim>\<open>try\<close>: a failing \<^verbatim>\<open>get\<close> or \<^verbatim>\<open>delete\<close> leaves the handler, with the
  namespace as it was.
\<close>

definition handle_DELETE_io ::
  "store_faults \<Rightarrow> platform \<Rightarrow> request \<Rightarrow> env \<Rightarrow> (error + response) \<times> env" where
  "handle_DELETE_io st pf request env =
     (let key = drop 1 (pathname request) in
      case SHORT_LINKS env of
        None \<Rightarrow> (Inr not_configured, env)
      | Some kv \<Rightarrow>
          (case requireAuth pf request env of
             Inl authResultDelete \<Rightarrow> (Inr authResultDelete, env)
           | Inr authResultDelete \<Rightarrow>
               if key = [] then
                 (Inr \<lparr>status = 400, headers = [], content = Text ''Missing key''\<rparr>, env)
               else
                 (case KV_get st kv key of
                    Inl e \<Rightarrow> (Inl e, env)
                  | Inr existingDelete \<Rightarrow>
                      if \<not> truthy_text existingDelete then
                        (Inr \<lparr>status = 404, headers = [],
                              content = Text ''Short link not found''\<rparr>, env)
                      else
                        (case KV_delete st kv key of
                           Inl e \<Rightarrow> (Inl e, env)
                         | Inr kv' \<Rightarrow>
                             (Inr \<lparr>status = 200,
                                   headers = [(''Content-Type'', ''application/json'')],
                                   content = json_content pf
                                     (JObj [(''success'', JBool True), (''key'', JStr key)])\<rparr>,
                              env\<lparr>SHORT_LINKS := Some kv'\<rparr>)))))"

text \<open>\<^verbatim>\<open>fetch(request, env)\<close> during a request with the store faults \<open>st\<close>.\<close>

definition fetch_io ::
  "store_faults \<Rightarrow> platform \<Rightarrow> request \<Rightarrow> env \<Rightarrow> (error + response) \<times> env" where
  "fetch_io st pf request env =
     (if method request = ''GET'' then (handle_GET_io st pf request env, env)
      else if method request = ''POST'' then
        (case handle_POST_io st pf request env of (r, env') \<Rightarrow> (Inr r, env'))
      else if method request = ''PUT'' then
        (case handle_PUT_io st pf request env of (r, env') \<Rightarrow> (Inr r, env'))
      else if method request = ''DELETE'' then handle_DELETE_io st pf request env
      else
        (Inr \<lparr>status = 405, headers = [(''Allow'', ''GET, POST, PUT, DELETE'')],
              content = Text ''Method Not Allowed''\<rparr>, env))"

section \<open>A sample deployment\<close>

text \<open>
  A concrete runtime, environment and tokens, on which the theorems below are evaluated. The
  issuer publishes one key \<open>k1\<close>; the sample runtime decodes and parses exactly the
  documents listed here and accepts the signature \<open>signature\<close> of the key's holder on the
  two signing inputs the holder issued. The clock stands at 2023-11-14T22:13:20Z.
\<close>

definition sample_jwk :: jsval where
  "sample_jwk = JObj [(''kty'', JStr ''RSA''), (''kid'', JStr ''k1''), (''e'', JStr ''AQAB'')]"

definition sample_header :: jsval where
  "sample_header = JObj [(''alg'', JStr ''RS256''), (''kid'', JStr ''k1'')]"

definition sample_claims :: jsval where
  "sample_claims = JObj [(''iss'', JStr ''https://issuer.example/''),
                         (''aud'', JStr ''public-bucket''), (''sub'', JStr ''alice'')]"

definition epoch_claims :: jsval where
  "epoch_claims = JObj [(''iss'', JStr ''https://issuer.example/''),
                        (''aud'', JStr ''public-bucket''), (''sub'', JStr ''alice''),
                        (''exp'', JNum 0)]"

definition created_record :: jsval where
  "created_record = JObj [(''url'', JStr ''https://x''),
                          (''created'', JStr ''2023-11-14T22:13:20.000Z''),
                          (''createdBy'', JStr ''alice'')]"

definition updated_record :: jsval where
  "updated_record = JObj [(''url'', JStr ''https://y''),
                          (''updated'', JStr ''2023-11-14T22:13:20.000Z''),
                          (''updatedBy'', JStr ''alice'')]"

definition line_feed_url :: string where
  "line_feed_url = ''https://x'' @ [CHR 0x0A] @ ''y''"

definition line_feed_record :: jsval where
  "line_feed_record = JObj [(''url'', JStr line_feed_url),
                            (''created'', JStr ''2023-11-14T22:13:20.000Z''),
                            (''createdBy'', JStr ''alice'')]"

definition sample_documents :: "jsval list" where
  "sample_documents =
     [sample_header, sample_claims, epoch_claims, created_record, updated_record,
      line_feed_record]"

definition header_b64 :: string where
  "header_b64 = ''eyJhbGciOiJSUzI1NiIsImtpZCI6ImsxIn0''"

definition claims_b64 :: string where
  "claims_b64 = ''eyJpc3MiOiJodHRwczovL2lzc3Vlci5leGFtcGxlLyIsImF1ZCI6InB1YmxpYy1idWNrZXQiLCJzdWIiOiJhbGljZSJ9''"

definition epoch_claims_b64 :: string where
  "epoch_claims_b64 = ''eyJpc3MiOiJodHRwczovL2lzc3Vlci5leGFtcGxlLyIsImF1ZCI6InB1YmxpYy1idWNrZXQiLCJzdWIiOiJhbGljZSIsImV4cCI6MH0''"

definition sample_base :: platform where
  "sample_base =
     \<lparr>http_fetch = (\<lambda>url.
        if url = JStr ''https://issuer.example/.well-known/jwks.json''
        then Some \<lparr>ok = True, json = Some (JObj [(''keys'', JArr [sample_jwk])])\<rparr>
        else None),
      atob = (\<lambda>s. None),
      JSON_parse = (\<lambda>s. None),
      importKey = (\<lambda>k. if k = sample_jwk then Some k else None),
      verify = (\<lambda>k signature data.
        k = sample_jwk \<and> signature = ''signature'' \<and>
        (data = header_b64 @ ''.'' @ claims_b64 \<or> data = header_b64 @ ''.'' @ epoch_claims_b64)),
      Date_now = 1700000000000,
      toISOString = (\<lambda>t.
        if t = 1700000000000 then ''2023-11-14T22:13:20.000Z'' else ''1970-01-01T00:00:00.000Z''),
      Number_toString = (\<lambda>x. if x = 0 then ''0'' else ''1''),
      StringToNumber = (\<lambda>s. None),
      header_value = (\<lambda>s. if CHR 0x0A \<in> set s \<or> CHR 0x0D \<in> set s then None else Some s)\<rparr>"

definition sample_platform :: platform where
  "sample_platform =
     sample_base
       \<lparr>atob := (\<lambda>s.
          if s = header_b64 then JSON_stringify sample_base sample_header
          else if s = claims_b64 then JSON_stringify sample_base sample_claims
          else if s = epoch_claims_b64 then JSON_stringify sample_base epoch_claims
          else if s = ''c2lnbmF0dXJl'' then Some ''signature''
          else None),
        JSON_parse := (\<lambda>s.
          find (\<lambda>v. JSON_stringify sample_base v = Some s) sample_documents)\<rparr>"

definition sample_env :: env where
  "sample_env =
     \<lparr>JWKS_URL = JStr ''https://issuer.example/.well-known/jwks.json'',
      JWT_ISSUER = JStr ''https://issuer.example/'',
      JWT_AUDIENCE = JStr ''public-bucket'',
      SHORT_LINKS = Some Map.empty,
      PUBLIC_BUCKET = Some Map.empty\<rparr>"

definition sample_token :: string where
  "sample_token = header_b64 @ ''.'' @ claims_b64 @ ''.'' @ ''c2lnbmF0dXJl''"

definition epoch_token :: string where
  "epoch_token = header_b64 @ ''.'' @ epoch_claims_b64 @ ''.'' @ ''c2lnbmF0dXJl''"

definition bearer :: "string \<Rightarrow> string option" where
  "bearer token = Some (''Bearer '' @ token)"

text \<open>Requests against the sample deployment, and two objects of its bucket.\<close>

definition post_a :: request where
  "post_a = \<lparr>method = ''POST'', pathname = ''/'', authorization = bearer sample_token,
             json_body = Some (JObj [(''key'', JStr ''a''), (''url'', JStr ''https://x'')])\<rparr>"

definition post_a_again :: request where
  "post_a_again = \<lparr>method = ''POST'', pathname = ''/'', authorization = bearer sample_token,
             json_body = Some (JObj [(''key'', JStr ''a''), (''url'', JStr ''https://z'')])\<rparr>"

definition put_a :: request where
  "put_a = \<lparr>method = ''PUT'', pathname = ''/'', authorization = bearer sample_token,
            json_body = Some (JObj [(''key'', JStr ''a''), (''url'', JStr ''https://y'')])\<rparr>"

definition get_a :: request where
  "get_a = \<lparr>method = ''GET'', pathname = ''/a'', authorization = None, json_body = None\<rparr>"

definition delete_a :: request where
  "delete_a = \<lparr>method = ''DELETE'', pathname = ''/a'', authorization = None, json_body = None\<rparr>"

text \<open>
  A key with a space, which reaches the handler as \<open>a%20b\<close> in the path of the URL, and a
  URL with a line feed, which the sample runtime refuses as a header value.
\<close>

definition post_spaced :: request where
  "post_spaced = \<lparr>method = ''POST'', pathname = ''/'', authorization = bearer sample_token,
             json_body = Some (JObj [(''key'', JStr ''a b''), (''url'', JStr ''https://x'')])\<rparr>"

definition get_spaced :: request where
  "get_spaced = \<lparr>method = ''GET'', pathname = ''/a%20b'', authorization = None,
                  json_body = None\<rparr>"

definition post_line_feed :: request where
  "post_line_feed = \<lparr>method = ''POST'', pathname = ''/'', authorization = bearer sample_token,
             json_body = Some (JObj [(''key'', JStr ''a''), (''url'', JStr line_feed_url)])\<rparr>"

text \<open>
  Store faults of the sample deployment: the namespace refuses a key of more than 512
  bytes and the bucket one of more than 1024. \<open>long_key\<close> has 600.
\<close>

definition key_limits :: store_faults where
  "key_limits = \<lparr>KV_get_fails = (\<lambda>k. 512 < length k),
                  KV_put_fails = (\<lambda>k v. 512 < length k),
                  KV_delete_fails = (\<lambda>k. 512 < length k),
                  R2_get_fails = (\<lambda>k. 1024 < length k)\<rparr>"




definition sample_object :: r2_object where
  "sample_object = \<lparr>body = Some ''It worked!'',
                     httpMetadata = [(''content-type'', ''text/plain'')],
                     httpEtag = ''etag-1''\<rparr>"

definition bodyless_object :: r2_object where
  "bodyless_object = \<lparr>body = None, httpMetadata = [], httpEtag = ''etag-2''\<rparr>"

section \<open>Notions used in the statements\<close>

text \<open>The text the namespace holds for a key (\<open>None\<close>: no entry, or no namespace).\<close>

definition stored :: "env \<Rightarrow> string \<Rightarrow> string option" where
  "stored env key = (case SHORT_LINKS env of None \<Rightarrow> None | Some kv \<Rightarrow> kv key)"

text \<open>
  The one property of the JSON parser that reading a short link relies on: a value
  serialised by the runtime \<open>pf\<close> and parsed by the runtime \<open>pf'\<close> keeps its \<open>url\<close>.
\<close>

definition url_survives :: "platform \<Rightarrow> platform \<Rightarrow> jsval \<Rightarrow> bool" where
  "url_survives pf pf' v =
     (case JSON_stringify pf v of
        None \<Rightarrow> False
      | Some text \<Rightarrow>
          (case JSON_parse pf' text of
             None \<Rightarrow> False
           | Some v' \<Rightarrow> get_prop v' ''url'' = get_prop v ''url''))"

section \<open>Basic facts\<close>

lemma bindE_Inl: "bindE (Inl e) f = Inl e"
  by (simp add: bindE_def)

lemma bindE_Inr: "bindE (Inr x) f = f x"
  by (simp add: bindE_def)

lemma or_throw_None: "or_throw None e = Inl e"
  by (simp add: or_throw_def)

lemma or_throw_Some: "or_throw (Some x) e = Inr x"
  by (simp add: or_throw_def)

lemma split_not_Nil: "split c s \<noteq> []"
  by (induction s) (auto split: list.splits)

lemma split_no_sep: "x \<in> set (split c s) \<Longrightarrow> c \<notin> set x"
  by (induction s arbitrary: x) (auto split: list.splits if_splits)

lemma split_append_sep: "c \<notin> set x \<Longrightarrow> split c (x @ c # s) = x # split c s"
  by (induction x) (auto split: list.splits)

lemma split_no_occurrence: "c \<notin> set x \<Longrightarrow> split c x = [x]"
  by (induction x) (auto split: list.splits)

lemma split_join:
  "xs \<noteq> [] \<Longrightarrow> \<forall>x \<in> set xs. c \<notin> set x \<Longrightarrow> split c (join [c] xs) = xs"
  by (induction "[c]" xs rule: join.induct) (auto simp: split_append_sep split_no_occurrence)

lemma nth_opt_take: "i < n \<Longrightarrow> nth_opt (take n xs) i = nth_opt xs i"
  by (induction xs i arbitrary: n rule: nth_opt.induct) (auto simp: take_Cons split: nat.splits)

lemma nth_opt_None: "length xs \<le> i \<Longrightarrow> nth_opt xs i = None"
  by (induction xs i rule: nth_opt.induct) auto

lemma verifyJWT_try_short:
  assumes "nth_opt (split (CHR ''.'') token) 2 = None"
  shows "\<exists>e. verifyJWT_try pf token env = Inl e"
  using assms
  by (auto simp: verifyJWT_try_def bindE_def or_throw_def Let_def split: sum.splits option.splits)

lemma verifyJWT_try_cong:
  assumes "\<And>i. i < 3 \<Longrightarrow> nth_opt (split (CHR ''.'') t1) i = nth_opt (split (CHR ''.'') t2) i"
  shows "verifyJWT_try pf t1 env = verifyJWT_try pf t2 env"
proof -
  have "nth_opt (split (CHR ''.'') t1) 0 = nth_opt (split (CHR ''.'') t2) 0"
       "nth_opt (split (CHR ''.'') t1) 1 = nth_opt (split (CHR ''.'') t2) 1"
       "nth_opt (split (CHR ''.'') t1) 2 = nth_opt (split (CHR ''.'') t2) 2"
    using assms by simp_all
  then show ?thesis
    unfolding verifyJWT_try_def by (simp only:)
qed

lemma verifyJWT_short: 
  assumes "length (split (CHR ''.'') token) < 3"
  shows "verifyJWT pf token env = JNull"
proof -
  have "nth_opt (split (CHR ''.'') token) 2 = None"
    using assms by (simp add: nth_opt_None)
  then obtain e where "verifyJWT_try pf token env = Inl e"
    using verifyJWT_try_short by blast
  then show ?thesis by (simp add: verifyJWT_def)
qed

lemma requireAuth_rejects_null:
  assumes "extractToken request = Some token" and "verifyJWT pf token env = JNull"
  shows "\<exists>r. requireAuth pf request env = Inl r \<and> status r = 401"
  using assms by (simp add: requireAuth_def)

lemma verifyJWT_first_three:
  "verifyJWT pf token env =
     verifyJWT pf (join ''.'' (take 3 (split (CHR ''.'') token))) env"
proof -
  let ?segs = "split (CHR ''.'') token"
  let ?t = "join ''.'' (take 3 ?segs)"
  have ne: "take 3 ?segs \<noteq> []" using split_not_Nil[of "CHR ''.''" token] by simp
  have "\<forall>x \<in> set (take 3 ?segs). CHR ''.'' \<notin> set x"
    using split_no_sep[of _ "CHR ''.''" token] by (meson in_set_takeD)
  with ne have "split (CHR ''.'') ?t = take 3 ?segs"
    by (rule split_join)
  then have "\<And>i. i < 3 \<Longrightarrow> nth_opt ?segs i = nth_opt (split (CHR ''.'') ?t) i"
    by (simp add: nth_opt_take)
  then have "verifyJWT_try pf token env = verifyJWT_try pf ?t env"
    by (rule verifyJWT_try_cong)
  then show ?thesis by (simp add: verifyJWT_def)
qed

section \<open>The segments of a token\<close>

text \<open>
  C1. \<^verbatim>\<open>verifyJWT\<close> never counts the segments of the token: it destructures the first
  three pieces of \<^verbatim>\<open>token.split('.')\<close>. A token with fewer than three segments is
  rejected (the missing signature segment makes \<^verbatim>\<open>signaturePart.replace\<close> throw, unless an
  earlier step failed already), and the auth gate answers 401. A token with more than three
  segments gets exactly the verdict of the token made of its first three segments; the rest
  is ignored.
\<close>

theorem verifyJWT_segment_count:
  "(length (split (CHR ''.'') token) < 3 \<longrightarrow>
      verifyJWT pf token env = JNull \<and>
      (extractToken request = Some token \<longrightarrow>
        (\<exists>r. requireAuth pf request env = Inl r \<and> status r = 401))) \<and>
   (3 < length (split (CHR ''.'') token) \<longrightarrow>
      verifyJWT pf token env =
        verifyJWT pf (join ''.'' (take 3 (split (CHR ''.'') token))) env)"
  using verifyJWT_short requireAuth_rejects_null verifyJWT_first_three by blast

theorem verifyJWT_segment_count_witness:
  "length (split (CHR ''.'') ''a.b'') < 3 \<and>
   verifyJWT sample_platform ''a.b'' sample_env = JNull \<and>
   extractToken \<lparr>method = ''POST'', pathname = ''/'', authorization = bearer ''a.b'',
                 json_body = None\<rparr> = Some ''a.b'' \<and>
   (\<exists>r. requireAuth sample_platform
          \<lparr>method = ''POST'', pathname = ''/'', authorization = bearer ''a.b'',
            json_body = None\<rparr> sample_env = Inl r \<and> status r = 401) \<and>
   3 < length (split (CHR ''.'') (sample_token @ ''.extra'')) \<and>
   verifyJWT sample_platform (sample_token @ ''.extra'') sample_env =
     verifyJWT sample_platform sample_token sample_env"
proof -
  have short: "length (split (CHR ''.'') ''a.b'') < 3" by code_simp
  have tok: "extractToken \<lparr>method = ''POST'', pathname = ''/'', authorization = bearer ''a.b'',
                 json_body = None\<rparr> = Some ''a.b''" by code_simp
  have long: "3 < length (split (CHR ''.'') (sample_token @ ''.extra''))" by code_simp
  have first3: "join ''.'' (take 3 (split (CHR ''.'') (sample_token @ ''.extra''))) = sample_token"
    by code_simp
  show ?thesis
    using short tok long first3
      verifyJWT_segment_count [of "''a.b''" sample_platform sample_env
        "\<lparr>method = ''POST'', pathname = ''/'', authorization = bearer ''a.b'', json_body = None\<rparr>"]
      verifyJWT_segment_count [of "sample_token @ ''.extra''" sample_platform sample_env]
    by simp
qed

text \<open>
  C1, as stated, fails: the sample token followed by a fourth segment \<open>.extra\<close> passes the
  auth gate with the claims of the sample token.
\<close>

theorem four_segment_token_accepted:
  "length (split (CHR ''.'') (sample_token @ ''.extra'')) = 4 \<and>
   requireAuth sample_platform
     \<lparr>method = ''POST'', pathname = ''/'', authorization = bearer (sample_token @ ''.extra''),
       json_body = None\<rparr> sample_env = Inr sample_claims"
  by code_simp

section \<open>Facts about the steps\<close>

lemma bindE_eq_Inr: "bindE m f = Inr y \<longleftrightarrow> (\<exists>x. m = Inr x \<and> f x = Inr y)"
  by (cases m) (simp_all add: bindE_def)

lemma or_throw_eq_Inr: "or_throw r e = Inr x \<longleftrightarrow> r = Some x"
  by (cases r) (simp_all add: or_throw_def)

lemma requireAuth_Inl_status: "requireAuth pf request env = Inl r \<Longrightarrow> status r = 401"
  by (auto simp: requireAuth_def Let_def split: option.splits if_splits)

lemma JSON_stringify_object_nonempty: "JSON_stringify pf (JObj fs) = Some text \<Longrightarrow> text \<noteq> []"
  by auto

lemma POST_try_201:
  assumes "POST_try pf request kv authResult = Inr (r, kv')" and "status r = 201"
  shows "\<exists>b body_key body_url sub text.
           json_body request = Some b \<and>
           get_prop b ''key'' = Inr body_key \<and> truthy body_key \<and>
           get_prop b ''url'' = Inr body_url \<and> truthy body_url \<and>
           \<not> truthy_text (kv (ToString pf body_key)) \<and>
           get_prop authResult ''sub'' = Inr sub \<and>
           JSON_stringify pf
             (JObj [(''url'', body_url), (''created'', JStr (toISOString pf (Date_now pf))),
                    (''createdBy'', js_or sub (JStr ''unknown''))]) = Some text \<and>
           kv' = kv(ToString pf body_key \<mapsto> text)"
  using assms unfolding POST_try_def Let_def
  by (auto simp: bindE_eq_Inr or_throw_eq_Inr missing_fields_def split: if_splits)

lemma handle_POST_201:
  assumes "handle_POST pf request env = (r, env')" and "status r = 201"
  shows "\<exists>kv authResult kv'.
           SHORT_LINKS env = Some kv \<and> requireAuth pf request env = Inr authResult \<and>
           POST_try pf request kv authResult = Inr (r, kv') \<and>
           env' = env\<lparr>SHORT_LINKS := Some kv'\<rparr>"
  using assms unfolding handle_POST_def
  by (auto simp: not_configured_def invalid_body_def dest: requireAuth_Inl_status
      split: option.splits sum.splits prod.splits)

lemma PUT_try_200:
  assumes "PUT_try pf request kv authResult = Inr (r, kv')" and "status r = 200"
  shows "\<exists>b body_key body_url sub text.
           json_body request = Some b \<and>
           get_prop b ''key'' = Inr body_key \<and> truthy body_key \<and>
           get_prop b ''url'' = Inr body_url \<and> truthy body_url \<and>
           truthy_text (kv (ToString pf body_key)) \<and>
           get_prop authResult ''sub'' = Inr sub \<and>
           JSON_stringify pf
             (JObj [(''url'', body_url), (''updated'', JStr (toISOString pf (Date_now pf))),
                    (''updatedBy'', js_or sub (JStr ''unknown''))]) = Some text \<and>
           kv' = kv(ToString pf body_key \<mapsto> text)"
  using assms unfolding PUT_try_def Let_def
  by (auto simp: bindE_eq_Inr or_throw_eq_Inr missing_fields_def split: if_splits)

lemma handle_PUT_200:
  assumes "handle_PUT pf request env = (r, env')" and "status r = 200"
  shows "\<exists>kv authResult kv'.
           SHORT_LINKS env = Some kv \<and> requireAuth pf request env = Inr authResult \<and>
           PUT_try pf request kv authResult = Inr (r, kv') \<and>
           env' = env\<lparr>SHORT_LINKS := Some kv'\<rparr>"
  using assms unfolding handle_PUT_def
  by (auto simp: not_configured_def invalid_body_def dest: requireAuth_Inl_status
      split: option.splits sum.splits prod.splits)

lemma fetch_POST:
  "method request = ''POST'' \<Longrightarrow>
   fetch pf request env = (Inr (fst (handle_POST pf request env)), snd (handle_POST pf request env))"
  by (simp add: fetch_def split: prod.splits)

lemma fetch_PUT:
  "method request = ''PUT'' \<Longrightarrow>
   fetch pf request env = (Inr (fst (handle_PUT pf request env)), snd (handle_PUT pf request env))"
  by (simp add: fetch_def split: prod.splits)



lemma requireAuth_no_header:
  "authorization request = None \<Longrightarrow>
   requireAuth pf request env =
     Inl \<lparr>status = 401, headers = [], content = Text ''Unauthorized: No token provided''\<rparr>"
  by (simp add: requireAuth_def extractToken_def)

lemma short_link_redirect_unbound:
  "SHORT_LINKS env = None \<Longrightarrow> short_link_redirect pf env key = None"
  by (simp add: short_link_redirect_def)

lemma short_link_redirect_no_entry:
  "SHORT_LINKS env = Some kv \<Longrightarrow> kv key = None \<Longrightarrow> short_link_redirect pf env key = None"
  by (simp add: short_link_redirect_def truthy_text_def)

lemma bucket_get_SHORT_LINKS: "bucket_get (env\<lparr>SHORT_LINKS := s\<rparr>) key = bucket_get env key"
  by (simp add: bucket_get_def)

lemma short_link_redirect_unparseable:
  "SHORT_LINKS env = Some kv \<Longrightarrow> kv key = Some text \<Longrightarrow> JSON_parse pf text = None \<Longrightarrow>
   short_link_redirect pf env key = None"
  by (simp add: short_link_redirect_def truthy_text_def bindE_def or_throw_def Let_def)

lemma short_link_redirect_hit:
  assumes "SHORT_LINKS env = Some kv" and "kv key = Some text" and "text \<noteq> []"
    and "JSON_parse pf text = Some linkData" and "get_prop linkData ''url'' = Inr url"
    and "header_value pf (ToString pf url) = Some location"
  shows "short_link_redirect pf env key =
           Some \<lparr>status = 302, headers = [(''Location'', location)], content = NoBody\<rparr>"
  using assms
  by (simp add: short_link_redirect_def truthy_text_def Let_def bindE_Inr or_throw_Some)

lemma POST_try_conflict:
  assumes "json_body request = Some b"
    and "get_prop b ''key'' = Inr body_key" and "truthy body_key"
    and "get_prop b ''url'' = Inr body_url" and "truthy body_url"
    and "kv (ToString pf body_key) = Some text" and "text \<noteq> []"
  shows "POST_try pf request kv authResult =
           Inr (\<lparr>status = 409, headers = [], content = Text ''Short link already exists''\<rparr>, kv)"
  using assms
  by (simp add: POST_try_def Let_def bindE_Inr or_throw_Some truthy_text_def)

lemma verifyJWT_try_expired:
  assumes "verifyJWT_try (pf\<lparr>Date_now := t0\<rparr>) token env = Inr payload"
    and "get_prop payload ''exp'' = Inr (JNum x)" and "x \<noteq> 0"
    and "x < of_int (Date_now pf) / 1000"
  shows "verifyJWT_try pf token env = Inl (Error ''Token expired'')"
proof -
  have dec: "decode_segment (pf\<lparr>Date_now := t0\<rparr>) p = decode_segment pf p" for p
    by (simp add: decode_segment_def)
  from assms show ?thesis
    unfolding verifyJWT_try_def Let_def dec
    by (auto simp: bindE_eq_Inr or_throw_eq_Inr bindE_Inr or_throw_Some js_lt_def split: if_splits)
qed

section \<open>Facts about failing store calls\<close>

lemma KV_get_no_faults: "KV_get no_faults kv key = Inr (kv key)"
  by (simp add: KV_get_def no_faults_def)

lemma KV_put_no_faults: "KV_put no_faults kv key v = Inr (kv(key \<mapsto> v))"
  by (simp add: KV_put_def no_faults_def)

lemma KV_delete_no_faults: "KV_delete no_faults kv key = Inr (kv(key := None))"
  by (simp add: KV_delete_def no_faults_def)

lemma short_link_redirect_io_eq:
  "short_link_redirect_io st pf env key =
     (if SHORT_LINKS env \<noteq> None \<and> KV_get_fails st key then Inl StoreError
      else Inr (short_link_redirect pf env key))"
  by (auto simp: short_link_redirect_io_def short_link_redirect_def KV_get_def bindE_Inl bindE_Inr
      Let_def split: option.splits sum.splits)

lemma bucket_get_io_eq:
  "bucket_get_io st env key =
     (if PUBLIC_BUCKET env \<noteq> None \<and> R2_get_fails st key then Inl StoreError
      else bucket_get env key)"
  by (cases "PUBLIC_BUCKET env")
     (simp_all add: bucket_get_io_def bucket_get_def R2_get_def bindE_Inl bindE_Inr or_throw_Some
      or_throw_None split: option.splits)

lemma handle_GET_io_no_faults: "handle_GET_io no_faults pf request env = handle_GET pf request env"
  by (simp add: handle_GET_io_def handle_GET_def short_link_redirect_io_eq bucket_get_io_eq
      no_faults_def bindE_Inr Let_def)

lemma POST_try_io_no_faults: "POST_try_io no_faults pf request kv a = POST_try pf request kv a"
  by (simp add: POST_try_io_def POST_try_def KV_get_no_faults KV_put_no_faults bindE_Inr Let_def
      cong: if_cong)

lemma PUT_try_io_no_faults: "PUT_try_io no_faults pf request kv a = PUT_try pf request kv a"
  by (simp add: PUT_try_io_def PUT_try_def KV_get_no_faults KV_put_no_faults bindE_Inr Let_def
      cong: if_cong)

lemma handle_DELETE_io_no_faults:
  "handle_DELETE_io no_faults pf request env =
     (Inr (fst (handle_DELETE pf request env)), snd (handle_DELETE pf request env))"
  by (simp add: handle_DELETE_io_def handle_DELETE_def KV_get_no_faults KV_delete_no_faults Let_def
      split: option.splits sum.splits)

lemma handle_POST_io_no_faults:
  "handle_POST_io no_faults pf request env = handle_POST pf request env"
  unfolding handle_POST_io_def handle_POST_def POST_try_io_no_faults by (rule refl)

lemma handle_PUT_io_no_faults:
  "handle_PUT_io no_faults pf request env = handle_PUT pf request env"
  unfolding handle_PUT_io_def handle_PUT_def PUT_try_io_no_faults by (rule refl)

lemma fetch_io_no_faults: "fetch_io no_faults pf request env = fetch pf request env"
  by (simp add: fetch_io_def fetch_def handle_GET_io_no_faults handle_POST_io_no_faults
      handle_PUT_io_no_faults handle_DELETE_io_no_faults split: prod.splits)

lemma KV_get_eq_Inr: "KV_get st kv key = Inr x \<longleftrightarrow> \<not> KV_get_fails st key \<and> x = kv key"
  by (auto simp: KV_get_def)

lemma KV_put_eq_Inr:
  "KV_put st kv key v = Inr x \<longleftrightarrow> \<not> KV_put_fails st key v \<and> x = kv(key \<mapsto> v)"
  by (auto simp: KV_put_def)

lemma POST_try_io_Inr:
  "POST_try_io st pf request kv a = Inr x \<Longrightarrow> POST_try pf request kv a = Inr x"
  unfolding POST_try_io_def POST_try_def Let_def
  by (auto simp: bindE_eq_Inr or_throw_eq_Inr KV_get_eq_Inr KV_put_eq_Inr bindE_Inr or_throw_Some
      split: if_splits)

lemma handle_POST_io_201:
  assumes "handle_POST_io st pf request env = (r, env')" and "status r = 201"
  shows "handle_POST pf request env = (r, env')"
  using assms unfolding handle_POST_io_def handle_POST_def
  by (auto simp: invalid_body_def dest: POST_try_io_Inr split: option.splits sum.splits prod.splits)

lemma fetch_io_POST:
  "method request = ''POST'' \<Longrightarrow>
   fetch_io st pf request env =
     (Inr (fst (handle_POST_io st pf request env)), snd (handle_POST_io st pf request env))"
  by (simp add: fetch_io_def split: prod.splits)

lemma fetch_io_GET:
  "method request = ''GET'' \<Longrightarrow>
   fetch_io st pf request env = (handle_GET_io st pf request env, env)"
  by (simp add: fetch_io_def)


lemma handle_GET_io_eq:
  "handle_GET_io st pf request env =
     (if drop 1 (pathname request) = [] then handle_GET pf request env
      else if SHORT_LINKS env \<noteq> None \<and> KV_get_fails st (drop 1 (pathname request))
        then Inl StoreError
      else (case short_link_redirect pf env (drop 1 (pathname request)) of
              Some r \<Rightarrow> Inr r
            | None \<Rightarrow> bucket_get_io st env (drop 1 (pathname request))))"
  by (simp add: handle_GET_io_def handle_GET_def short_link_redirect_io_eq bindE_Inl bindE_Inr
      Let_def split: option.splits)






lemma bucket_get_io_bound:
  assumes "PUBLIC_BUCKET env = Some bucket" and "\<not> R2_get_fails st key"
  shows "bucket_get_io st env key =
     Inr (case bucket key of
            None \<Rightarrow>
              \<lparr>status = 404, headers = [], content = Text (''Object Not Found: '' @ key)\<rparr>
          | Some object \<Rightarrow>
              (case body object of
                 None \<Rightarrow>
                   \<lparr>status = 404, headers = [], content = Text (''Object Not Found: '' @ key)\<rparr>
               | Some bytes \<Rightarrow>
                   \<lparr>status = 200,
                     headers = headers_set ''etag'' (httpEtag object) (httpMetadata object),
                     content = Stream bytes\<rparr>))"
  using assms
  by (simp add: bucket_get_io_def R2_get_def bindE_Inr or_throw_Some split: option.splits)

lemma bucket_get_io_SHORT_LINKS:
  "bucket_get_io st (env\<lparr>SHORT_LINKS := s\<rparr>) key = bucket_get_io st env key"
  by (simp add: bucket_get_io_def)

lemma created_link_redirect:
  assumes "handle_POST pf post env = (r, env')" and "status r = 201"
    and "json_body post = Some b"
    and "get_prop b ''key'' = Inr (JStr k)" and "get_prop b ''url'' = Inr (JStr u)"
    and "requireAuth pf post env = Inr authResult" and "get_prop authResult ''sub'' = Inr sub"
    and "url_survives pf pf'
           (JObj [(''url'', JStr u), (''created'', JStr (toISOString pf (Date_now pf))),
                  (''createdBy'', js_or sub (JStr ''unknown''))])"
    and "header_value pf' u = Some u"
  shows "k \<noteq> [] \<and> SHORT_LINKS env' \<noteq> None \<and>
         short_link_redirect pf' env' k =
           Some \<lparr>status = 302, headers = [(''Location'', u)], content = NoBody\<rparr>"
proof -
  let ?linkData = "JObj [(''url'', JStr u), (''created'', JStr (toISOString pf (Date_now pf))),
                         (''createdBy'', js_or sub (JStr ''unknown''))]"
  obtain kv a kv' where h:
      "SHORT_LINKS env = Some kv" "requireAuth pf post env = Inr a"
      "POST_try pf post kv a = Inr (r, kv')" "env' = env\<lparr>SHORT_LINKS := Some kv'\<rparr>"
    using handle_POST_201 [OF assms(1,2)] by blast
  have a: "a = authResult" using h(2) assms(6) by simp
  from POST_try_201 [OF h(3) assms(2)] assms(3-5,7) a
  obtain t where t: "JSON_stringify pf ?linkData = Some t" "kv' = kv(k \<mapsto> t)" "k \<noteq> []"
    by auto
  from assms(8) t(1) obtain v where v: "JSON_parse pf' t = Some v" "get_prop v ''url'' = Inr (JStr u)"
    by (auto simp: url_survives_def split: option.splits)
  have "t \<noteq> []" using t(1) by (rule JSON_stringify_object_nonempty)
  then have "short_link_redirect pf' env' k =
      Some \<lparr>status = 302, headers = [(''Location'', u)], content = NoBody\<rparr>"
    using short_link_redirect_hit [of env' "kv(k \<mapsto> t)" k t pf' v "JStr u" u] h(4) t(2) v assms(9)
    by simp
  then show ?thesis using t(3) h(4) by simp
qed

section \<open>Updating a short link\<close>

text \<open>
  C2. A successful PUT does not merge: it writes a fresh record of exactly three properties,
  \<open>url\<close>, \<open>updated\<close> and \<open>updatedBy\<close>, built from the request and the token alone, over
  whatever the key held. The \<open>created\<close> and \<open>createdBy\<close> of the record it replaces are
  not kept.
\<close>

theorem put_replaces_record:
  assumes "method request = ''PUT''" and "fetch pf request env = (Inr r, env')"
    and "status r = 200"
  shows "\<exists>kv b body_key body_url authResult sub text.
           SHORT_LINKS env = Some kv \<and> json_body request = Some b \<and>
           get_prop b ''key'' = Inr body_key \<and> get_prop b ''url'' = Inr body_url \<and>
           requireAuth pf request env = Inr authResult \<and>
           get_prop authResult ''sub'' = Inr sub \<and>
           JSON_stringify pf
             (JObj [(''url'', body_url), (''updated'', JStr (toISOString pf (Date_now pf))),
                    (''updatedBy'', js_or sub (JStr ''unknown''))]) = Some text \<and>
           env' = env\<lparr>SHORT_LINKS := Some (kv(ToString pf body_key \<mapsto> text))\<rparr>"
proof -
  have "handle_PUT pf request env = (r, env')"
    using assms(1,2) by (simp add: fetch_PUT prod_eq_iff)
  then obtain kv authResult kv' where h:
      "SHORT_LINKS env = Some kv" "requireAuth pf request env = Inr authResult"
      "PUT_try pf request kv authResult = Inr (r, kv')" "env' = env\<lparr>SHORT_LINKS := Some kv'\<rparr>"
    using handle_PUT_200 [OF _ assms(3)] by blast
  from PUT_try_200 [OF h(3) assms(3)] h(1,2,4) show ?thesis by blast
qed

theorem put_replaces_record_witness:
  "\<exists>kv b body_key body_url authResult sub text.
     SHORT_LINKS (snd (fetch sample_platform post_a sample_env)) = Some kv \<and>
     json_body put_a = Some b \<and>
     get_prop b ''key'' = Inr body_key \<and> get_prop b ''url'' = Inr body_url \<and>
     requireAuth sample_platform put_a (snd (fetch sample_platform post_a sample_env)) =
       Inr authResult \<and>
     get_prop authResult ''sub'' = Inr sub \<and>
     JSON_stringify sample_platform
       (JObj [(''url'', body_url),
              (''updated'', JStr (toISOString sample_platform (Date_now sample_platform))),
              (''updatedBy'', js_or sub (JStr ''unknown''))]) = Some text \<and>
     snd (fetch sample_platform put_a (snd (fetch sample_platform post_a sample_env))) =
       (snd (fetch sample_platform post_a sample_env))
         \<lparr>SHORT_LINKS := Some (kv(ToString sample_platform body_key \<mapsto> text))\<rparr>"
proof -
  let ?env = "snd (fetch sample_platform post_a sample_env)"
  have 1: "method put_a = ''PUT''" by code_simp
  have 2: "fetch sample_platform put_a ?env =
      (Inr (fst (handle_PUT sample_platform put_a ?env)), snd (fetch sample_platform put_a ?env))"
    by (simp add: fetch_PUT 1)
  have 3: "status (fst (handle_PUT sample_platform put_a ?env)) = 200" by code_simp
  show ?thesis
    by (rule put_replaces_record [OF 1 2 3])
qed

text \<open>
  C2, as stated, fails: the record that POST created for the key \<open>a\<close> carries \<open>created\<close>
  and \<open>createdBy\<close>; after a successful PUT on \<open>a\<close> the stored record has neither.
\<close>

theorem put_erases_created:
  "fst (fetch sample_platform post_a sample_env) =
     Inr \<lparr>status = 201, headers = [(''Content-Type'', ''application/json'')],
          content = json_content sample_platform
            (JObj [(''success'', JBool True), (''key'', JStr ''a''), (''url'', JStr ''https://x'')])\<rparr> \<and>
   Option.bind (stored (snd (fetch sample_platform post_a sample_env)) ''a'')
     (JSON_parse sample_platform) = Some created_record \<and>
   get_prop created_record ''created'' = Inr (JStr ''2023-11-14T22:13:20.000Z'') \<and>
   get_prop created_record ''createdBy'' = Inr (JStr ''alice'') \<and>
   fst (fetch sample_platform put_a (snd (fetch sample_platform post_a sample_env))) =
     Inr \<lparr>status = 200, headers = [(''Content-Type'', ''application/json'')],
          content = json_content sample_platform
            (JObj [(''success'', JBool True), (''key'', JStr ''a''), (''url'', JStr ''https://y'')])\<rparr> \<and>
   Option.bind
     (stored (snd (fetch sample_platform put_a (snd (fetch sample_platform post_a sample_env)))) ''a'')
     (JSON_parse sample_platform) = Some updated_record \<and>
   get_prop updated_record ''created'' = Inr JUndefined \<and>
   get_prop updated_record ''createdBy'' = Inr JUndefined"
  by code_simp

section \<open>Exceptions that leave the handler\<close>




section \<open>Create, then read\<close>

text \<open>
  C4. Let \<open>k\<close> be a string key that the URL parser leaves as it is, so that the path of
  GET \<open>/k\<close> is \<open>/k\<close>, and \<open>u\<close> a string URL that the runtime accepts unchanged as a
  header value. After a POST that answered 201 for \<open>k\<close> and \<open>u\<close>, a GET for \<open>/k\<close> on the
  environment the POST left, during which the lookup in the namespace answers, returns 302
  with \<open>Location: u\<close>. (That the parser reads the \<open>url\<close> of the record back from its
  serialisation is a property of every runtime.)
\<close>

theorem create_then_get_redirects:
  assumes "method post = ''POST''" and "fetch_io st pf post env = (Inr r, env')"
    and "status r = 201"
    and "json_body post = Some b"
    and "get_prop b ''key'' = Inr (JStr k)" and "get_prop b ''url'' = Inr (JStr u)"
    and "requireAuth pf post env = Inr authResult" and "get_prop authResult ''sub'' = Inr sub"
    and "url_survives pf pf'
           (JObj [(''url'', JStr u), (''created'', JStr (toISOString pf (Date_now pf))),
                  (''createdBy'', js_or sub (JStr ''unknown''))])"
    and "header_value pf' u = Some u"
    and "method get = ''GET''" and "pathname get = CHR ''/'' # k"
    and "\<not> KV_get_fails st' k"
  shows "fetch_io st' pf' get env' =
           (Inr \<lparr>status = 302, headers = [(''Location'', u)], content = NoBody\<rparr>, env')"
proof -
  have "handle_POST_io st pf post env = (r, env')"
    using assms(1,2) by (simp add: fetch_io_POST prod_eq_iff)
  then have "handle_POST pf post env = (r, env')"
    using assms(3) by (rule handle_POST_io_201)
  from created_link_redirect [OF this assms(3-10)]
  have k: "k \<noteq> []"
    and hit: "short_link_redirect pf' env' k =
      Some \<lparr>status = 302, headers = [(''Location'', u)], content = NoBody\<rparr>"
    by simp_all
  have "handle_GET_io st' pf' get env' =
      Inr \<lparr>status = 302, headers = [(''Location'', u)], content = NoBody\<rparr>"
    using k hit assms(12,13) by (simp add: handle_GET_io_eq)
  then show ?thesis
    using assms(11) by (simp add: fetch_io_GET)
qed

theorem create_then_get_redirects_witness:
  "fetch_io key_limits sample_platform get_a
     (snd (fetch_io key_limits sample_platform post_a sample_env)) =
     (Inr \<lparr>status = 302, headers = [(''Location'', ''https://x'')], content = NoBody\<rparr>,
      snd (fetch_io key_limits sample_platform post_a sample_env))"
proof -
  have 1: "method post_a = ''POST''" by code_simp
  have 2: "fetch_io key_limits sample_platform post_a sample_env =
      (Inr (fst (handle_POST_io key_limits sample_platform post_a sample_env)),
       snd (fetch_io key_limits sample_platform post_a sample_env))"
    by (simp add: fetch_io_POST 1)
  have 3: "status (fst (handle_POST_io key_limits sample_platform post_a sample_env)) = 201"
    by code_simp
  have 4: "json_body post_a = Some (JObj [(''key'', JStr ''a''), (''url'', JStr ''https://x'')])"
    by code_simp
  have 5: "get_prop (JObj [(''key'', JStr ''a''), (''url'', JStr ''https://x'')]) ''key'' = Inr (JStr ''a'')"
    by code_simp
  have 6: "get_prop (JObj [(''key'', JStr ''a''), (''url'', JStr ''https://x'')]) ''url'' = Inr (JStr ''https://x'')"
    by code_simp
  have 7: "requireAuth sample_platform post_a sample_env = Inr sample_claims" by code_simp
  have 8: "get_prop sample_claims ''sub'' = Inr (JStr ''alice'')" by code_simp
  have 9: "url_survives sample_platform sample_platform
           (JObj [(''url'', JStr ''https://x''),
                  (''created'', JStr (toISOString sample_platform (Date_now sample_platform))),
                  (''createdBy'', js_or (JStr ''alice'') (JStr ''unknown''))])"
    by code_simp
  have 10: "header_value sample_platform ''https://x'' = Some ''https://x''" by code_simp
  have 11: "method get_a = ''GET''" by code_simp
  have 12: "pathname get_a = CHR ''/'' # ''a''" by code_simp
  have 13: "\<not> KV_get_fails key_limits ''a''" by code_simp
  show ?thesis
    by (rule create_then_get_redirects [OF 1 2 3 4 5 6 7 8 9 10 11 12 13])
qed

text \<open>
  C4, as stated for all keys and URLs, fails. A URL with a line feed is stored with 201, but
  building the redirect throws inside the \<^verbatim>\<open>try\<close> and the GET falls through to the bucket.
  The key \<open>a b\<close> is stored with 201 under \<open>a b\<close>, but the path of GET \<open>/a b\<close> is
  \<open>/a%20b\<close>, so the GET looks up \<open>a%20b\<close> and falls through as well.
\<close>

theorem create_then_get_not_redirected:
  "map_sum id status (fst (fetch_io no_faults sample_platform post_line_feed sample_env)) =
     Inr 201 \<and>
   fst (fetch_io no_faults sample_platform get_a
          (snd (fetch_io no_faults sample_platform post_line_feed sample_env))) =
     Inr \<lparr>status = 404, headers = [], content = Text ''Object Not Found: a''\<rparr> \<and>
   map_sum id status (fst (fetch_io no_faults sample_platform post_spaced sample_env)) =
     Inr 201 \<and>
   fst (fetch_io no_faults sample_platform get_spaced
          (snd (fetch_io no_faults sample_platform post_spaced sample_env))) =
     Inr \<lparr>status = 404, headers = [], content = Text ''Object Not Found: a%20b''\<rparr>"
  by code_simp

section \<open>Creating a key twice\<close>

text \<open>
  C5. After a POST that answered 201 for a key, a second POST for the same key, authenticated
  and with both fields, answers 409 and leaves the environment, and so the stored record, as
  the first POST left it.
\<close>

theorem second_create_conflicts:
  assumes "method first = ''POST''" and "fetch pf first env = (Inr r, env')" and "status r = 201"
    and "json_body first = Some b" and "get_prop b ''key'' = Inr key"
    and "method second = ''POST''" and "requireAuth pf' second env' = Inr authResult"
    and "json_body second = Some b'"
    and "get_prop b' ''key'' = Inr key'" and "truthy key'"
    and "ToString pf' key' = ToString pf key"
    and "get_prop b' ''url'' = Inr url'" and "truthy url'"
  shows "fetch pf' second env' =
           (Inr \<lparr>status = 409, headers = [], content = Text ''Short link already exists''\<rparr>, env')"
proof -
  have "handle_POST pf first env = (r, env')"
    using assms(1,2) by (simp add: fetch_POST prod_eq_iff)
  then obtain kv a kv' where h:
      "SHORT_LINKS env = Some kv" "requireAuth pf first env = Inr a"
      "POST_try pf first kv a = Inr (r, kv')" "env' = env\<lparr>SHORT_LINKS := Some kv'\<rparr>"
    using handle_POST_201 [OF _ assms(3)] by blast
  from POST_try_201 [OF h(3) assms(3)]
  obtain b0 body_key v t where t0: "json_body first = Some b0" "get_prop b0 ''key'' = Inr body_key"
      "JSON_stringify pf (JObj v) = Some t" "kv' = kv(ToString pf body_key \<mapsto> t)"
    by blast
  have "body_key = key" using t0(1,2) assms(4,5) by simp
  with t0 have t: "JSON_stringify pf (JObj v) = Some t" "kv' = kv(ToString pf key \<mapsto> t)"
    by simp_all
  have ne: "t \<noteq> []" using t(1) by (rule JSON_stringify_object_nonempty)
  have kv': "SHORT_LINKS env' = Some kv'" using h(4) by simp
  have "kv' (ToString pf' key') = Some t" using t(2) assms(11) by simp
  then have "POST_try pf' second kv' authResult =
      Inr (\<lparr>status = 409, headers = [], content = Text ''Short link already exists''\<rparr>, kv')"
    using POST_try_conflict [OF assms(8,9,10,12,13) _ ne] by simp
  then have "handle_POST pf' second env' =
      (\<lparr>status = 409, headers = [], content = Text ''Short link already exists''\<rparr>, env')"
    using kv' assms(7) by (simp add: handle_POST_def)
  then show ?thesis
    using assms(6) by (simp add: fetch_POST)
qed

theorem second_create_conflicts_witness:
  "fetch sample_platform post_a_again (snd (fetch sample_platform post_a sample_env)) =
     (Inr \<lparr>status = 409, headers = [], content = Text ''Short link already exists''\<rparr>,
      snd (fetch sample_platform post_a sample_env))"
proof -
  have 1: "method post_a = ''POST''" by code_simp
  have 2: "fetch sample_platform post_a sample_env =
      (Inr (fst (handle_POST sample_platform post_a sample_env)),
       snd (fetch sample_platform post_a sample_env))"
    by (simp add: fetch_POST 1)
  have 3: "status (fst (handle_POST sample_platform post_a sample_env)) = 201" by code_simp
  have 4: "json_body post_a = Some (JObj [(''key'', JStr ''a''), (''url'', JStr ''https://x'')])"
    by code_simp
  have 5: "get_prop (JObj [(''key'', JStr ''a''), (''url'', JStr ''https://x'')]) ''key'' = Inr (JStr ''a'')"
    by code_simp
  have 6: "method post_a_again = ''POST''" by code_simp
  have 7: "requireAuth sample_platform post_a_again (snd (fetch sample_platform post_a sample_env))
             = Inr sample_claims" by code_simp
  have 8: "json_body post_a_again = Some (JObj [(''key'', JStr ''a''), (''url'', JStr ''https://z'')])"
    by code_simp
  have 9: "get_prop (JObj [(''key'', JStr ''a''), (''url'', JStr ''https://z'')]) ''key'' = Inr (JStr ''a'')"
    by code_simp
  have 10: "truthy (JStr ''a'')" by code_simp
  have 11: "ToString sample_platform (JStr ''a'') = ToString sample_platform (JStr ''a'')" by simp
  have 12: "get_prop (JObj [(''key'', JStr ''a''), (''url'', JStr ''https://z'')]) ''url'' = Inr (JStr ''https://z'')"
    by code_simp
  have 13: "truthy (JStr ''https://z'')" by code_simp
  show ?thesis
    by (rule second_create_conflicts [OF 1 2 3 4 5 6 7 8 9 10 11 12 13])
qed

section \<open>No Authorization header\<close>

text \<open>
  C6. With the namespace configured, a POST, PUT or DELETE that carries no Authorization
  header is answered 401 and the environment, with the namespace in it, is returned as it
  was.
\<close>

theorem no_authorization_header_401:
  assumes "method request = ''POST'' \<or> method request = ''PUT'' \<or> method request = ''DELETE''"
    and "authorization request = None"
    and "SHORT_LINKS env = Some kv"
  shows "fetch pf request env =
     (Inr \<lparr>status = 401, headers = [], content = Text ''Unauthorized: No token provided''\<rparr>, env)"
  using assms
  by (auto simp: fetch_def handle_POST_def handle_PUT_def handle_DELETE_def Let_def
      requireAuth_no_header)

theorem no_authorization_header_401_witness:
  "fetch sample_platform delete_a (sample_env\<lparr>SHORT_LINKS := Some [''a'' \<mapsto> ''{}'']\<rparr>) =
   (Inr \<lparr>status = 401, headers = [], content = Text ''Unauthorized: No token provided''\<rparr>,
    sample_env\<lparr>SHORT_LINKS := Some [''a'' \<mapsto> ''{}'']\<rparr>)"
proof -
  have 1: "method delete_a = ''POST'' \<or> method delete_a = ''PUT'' \<or> method delete_a = ''DELETE''"
    by code_simp
  have 2: "authorization delete_a = None" by code_simp
  have 3: "SHORT_LINKS (sample_env\<lparr>SHORT_LINKS := Some [''a'' \<mapsto> ''{}'']\<rparr>) = Some [''a'' \<mapsto> ''{}'']"
    by simp
  show ?thesis
    by (rule no_authorization_header_401 [OF 1 2 3])
qed

section \<open>Expiry\<close>

text \<open>
  C7. The expiry check is guarded by \<^verbatim>\<open>payload.exp &&\<close>, which is false for an \<open>exp\<close> of
  zero as well as for a missing one. The token below is signed by the issuer, carries
  \<open>exp = 0\<close>, and is verified at an instant long after 1970: \<^verbatim>\<open>verifyJWT\<close> returns its
  claims and the auth gate lets it through. (For every other number, \<open>verifyJWT_try_expired\<close>
  above shows the check to fire.)
\<close>

theorem epoch_exp_token_accepted:
  "get_prop epoch_claims ''exp'' = Inr (JNum 0) \<and>
   (0::rat) < of_int (Date_now sample_platform) / 1000 \<and>
   verifyJWT_try sample_platform epoch_token sample_env = Inr epoch_claims \<and>
   requireAuth sample_platform
     \<lparr>method = ''POST'', pathname = ''/'', authorization = bearer epoch_token, json_body = None\<rparr>
     sample_env = Inr epoch_claims"
  by code_simp

section \<open>Without the namespace\<close>

text \<open>
  C8. When the key-value binding is absent, POST, PUT and DELETE answer 503 whatever the
  request carries, and the environment is unchanged. A GET for a non-empty key is served
  from the bucket: with the bucket bound and its \<^verbatim>\<open>get\<close> answering, the response is 200
  with the object's body, metadata and ETag when the bucket holds an object with a body for
  the key, and 404 otherwise. It is the result the GET has under a bound namespace that
  holds no entry for the key and answers the lookup.
\<close>

theorem unbound_namespace:
  assumes "SHORT_LINKS env = None"
  shows "(method request = ''POST'' \<or> method request = ''PUT'' \<or> method request = ''DELETE'' \<longrightarrow>
            fetch_io st pf request env = (Inr not_configured, env) \<and>
            status not_configured = 503) \<and>
         (method request = ''GET'' \<and> drop 1 (pathname request) \<noteq> [] \<longrightarrow>
            (\<forall>bucket. PUBLIC_BUCKET env = Some bucket \<and>
                 \<not> R2_get_fails st (drop 1 (pathname request)) \<longrightarrow>
               fetch_io st pf request env =
                 (Inr (case bucket (drop 1 (pathname request)) of
                         None \<Rightarrow>
                           \<lparr>status = 404, headers = [],
                             content = Text (''Object Not Found: '' @ drop 1 (pathname request))\<rparr>
                       | Some object \<Rightarrow>
                           (case body object of
                              None \<Rightarrow>
                                \<lparr>status = 404, headers = [],
                                  content =
                                    Text (''Object Not Found: '' @ drop 1 (pathname request))\<rparr>
                            | Some bytes \<Rightarrow>
                                \<lparr>status = 200,
                                  headers = headers_set ''etag'' (httpEtag object)
                                              (httpMetadata object),
                                  content = Stream bytes\<rparr>)), env)) \<and>
            (\<forall>kv :: string \<rightharpoonup> string. kv (drop 1 (pathname request)) = None \<and>
                 \<not> KV_get_fails st (drop 1 (pathname request)) \<longrightarrow>
               fst (fetch_io st pf request env) =
                 fst (fetch_io st pf request (env\<lparr>SHORT_LINKS := Some kv\<rparr>))))"
proof (intro conjI impI allI)
  assume "method request = ''POST'' \<or> method request = ''PUT'' \<or> method request = ''DELETE''"
  then show "fetch_io st pf request env = (Inr not_configured, env)"
    using assms
    by (auto simp: fetch_io_def handle_POST_io_def handle_PUT_io_def handle_DELETE_io_def Let_def)
next
  show "status not_configured = 503" by (simp add: not_configured_def)
next
  fix bucket
  assume get: "method request = ''GET'' \<and> drop 1 (pathname request) \<noteq> []"
    and b: "PUBLIC_BUCKET env = Some bucket \<and> \<not> R2_get_fails st (drop 1 (pathname request))"
  have "handle_GET_io st pf request env = bucket_get_io st env (drop 1 (pathname request))"
    using get assms by (simp add: handle_GET_io_eq short_link_redirect_unbound)
  then show "fetch_io st pf request env =
       (Inr (case bucket (drop 1 (pathname request)) of
               None \<Rightarrow>
                 \<lparr>status = 404, headers = [],
                   content = Text (''Object Not Found: '' @ drop 1 (pathname request))\<rparr>
             | Some object \<Rightarrow>
                 (case body object of
                    None \<Rightarrow>
                      \<lparr>status = 404, headers = [],
                        content = Text (''Object Not Found: '' @ drop 1 (pathname request))\<rparr>
                  | Some bytes \<Rightarrow>
                      \<lparr>status = 200,
                        headers = headers_set ''etag'' (httpEtag object) (httpMetadata object),
                        content = Stream bytes\<rparr>)), env)"
    using get b bucket_get_io_bound [of env bucket st "drop 1 (pathname request)"]
    by (simp add: fetch_io_GET)
next
  fix kv :: "string \<rightharpoonup> string"
  assume get: "method request = ''GET'' \<and> drop 1 (pathname request) \<noteq> []"
    and k: "kv (drop 1 (pathname request)) = None \<and>
            \<not> KV_get_fails st (drop 1 (pathname request))"
  have 1: "handle_GET_io st pf request env = bucket_get_io st env (drop 1 (pathname request))"
    using get assms by (simp add: handle_GET_io_eq short_link_redirect_unbound)
  have "short_link_redirect pf (env\<lparr>SHORT_LINKS := Some kv\<rparr>) (drop 1 (pathname request)) = None"
    using k by (simp add: short_link_redirect_no_entry)
  then have 2: "handle_GET_io st pf request (env\<lparr>SHORT_LINKS := Some kv\<rparr>) =
      bucket_get_io st env (drop 1 (pathname request))"
    using get k by (simp add: handle_GET_io_eq bucket_get_io_SHORT_LINKS)
  show "fst (fetch_io st pf request env) =
      fst (fetch_io st pf request (env\<lparr>SHORT_LINKS := Some kv\<rparr>))"
    using get 1 2 by (simp add: fetch_io_GET)
qed

theorem unbound_namespace_witness:
  "fetch_io key_limits sample_platform post_a (sample_env\<lparr>SHORT_LINKS := None\<rparr>) =
     (Inr not_configured, sample_env\<lparr>SHORT_LINKS := None\<rparr>) \<and>
   status not_configured = 503 \<and>
   fetch_io key_limits sample_platform get_a
     (sample_env\<lparr>SHORT_LINKS := None, PUBLIC_BUCKET := Some [''a'' \<mapsto> sample_object]\<rparr>) =
     (Inr \<lparr>status = 200,
           headers = headers_set ''etag'' (httpEtag sample_object) (httpMetadata sample_object),
           content = Stream ''It worked!''\<rparr>,
      sample_env\<lparr>SHORT_LINKS := None, PUBLIC_BUCKET := Some [''a'' \<mapsto> sample_object]\<rparr>) \<and>
   fst (fetch_io key_limits sample_platform get_a
          (sample_env\<lparr>SHORT_LINKS := None, PUBLIC_BUCKET := Some [''a'' \<mapsto> sample_object]\<rparr>)) =
     fst (fetch_io key_limits sample_platform get_a
            (sample_env\<lparr>SHORT_LINKS := None, PUBLIC_BUCKET := Some [''a'' \<mapsto> sample_object],
                         SHORT_LINKS := Some Map.empty\<rparr>))"
proof -
  let ?env = "sample_env\<lparr>SHORT_LINKS := None, PUBLIC_BUCKET := Some [''a'' \<mapsto> sample_object]\<rparr>"
  have 0: "SHORT_LINKS (sample_env\<lparr>SHORT_LINKS := None\<rparr>) = None" by simp
  have 6: "SHORT_LINKS ?env = None" by simp
  have 1: "method post_a = ''POST'' \<or> method post_a = ''PUT'' \<or> method post_a = ''DELETE''"
    by code_simp
  have 2: "method get_a = ''GET'' \<and> drop 1 (pathname get_a) \<noteq> []" by code_simp
  have 3: "PUBLIC_BUCKET ?env = Some [''a'' \<mapsto> sample_object] \<and>
           \<not> R2_get_fails key_limits (drop 1 (pathname get_a))"
  proof
    show "PUBLIC_BUCKET ?env = Some [''a'' \<mapsto> sample_object]" by simp
    show "\<not> R2_get_fails key_limits (drop 1 (pathname get_a))" by code_simp
  qed
  have 4: "(Map.empty :: string \<rightharpoonup> string) (drop 1 (pathname get_a)) = None \<and>
           \<not> KV_get_fails key_limits (drop 1 (pathname get_a))"
  proof
    show "(Map.empty :: string \<rightharpoonup> string) (drop 1 (pathname get_a)) = None" by simp
    show "\<not> KV_get_fails key_limits (drop 1 (pathname get_a))" by code_simp
  qed
  have 5: "drop 1 (pathname get_a) = ''a''" by code_simp
  note post = unbound_namespace [OF 0, of post_a key_limits sample_platform,
      THEN conjunct1, rule_format, OF 1]
  note served = unbound_namespace [OF 6, of get_a key_limits sample_platform,
      THEN conjunct2, rule_format, OF 2, THEN conjunct1, rule_format, OF 3]
  note same = unbound_namespace [OF 6, of get_a key_limits sample_platform,
      THEN conjunct2, rule_format, OF 2, THEN conjunct2, rule_format, OF 4]
  show ?thesis
    using post served same 5 by (simp add: sample_object_def)
qed

section \<open>A stored value that is not JSON\<close>

text \<open>
  C9. A GET for a non-empty key whose entry in the namespace does not parse as JSON goes on
  to the bucket lookup, with the result it has when the entry is removed: 200 with the
  object's body, metadata and ETag when the bucket holds an object with a body for the key,
  404 otherwise.
\<close>

theorem unparseable_entry_falls_through:
  assumes "method request = ''GET''" and "drop 1 (pathname request) = key" and "key \<noteq> []"
    and "SHORT_LINKS env = Some kv" and "kv key = Some text" and "JSON_parse pf text = None"
  shows "fetch pf request env = (bucket_get env key, env) \<and>
         fst (fetch pf request env) =
           fst (fetch pf request (env\<lparr>SHORT_LINKS := Some (kv(key := None))\<rparr>)) \<and>
         (\<forall>bucket. PUBLIC_BUCKET env = Some bucket \<longrightarrow>
            fetch pf request env =
              (Inr (case bucket key of
                      None \<Rightarrow>
                        \<lparr>status = 404, headers = [],
                          content = Text (''Object Not Found: '' @ key)\<rparr>
                    | Some object \<Rightarrow>
                        (case body object of
                           None \<Rightarrow>
                             \<lparr>status = 404, headers = [],
                               content = Text (''Object Not Found: '' @ key)\<rparr>
                         | Some bytes \<Rightarrow>
                             \<lparr>status = 200,
                               headers = headers_set ''etag'' (httpEtag object)
                                           (httpMetadata object),
                               content = Stream bytes\<rparr>)), env))"
proof -
  have "short_link_redirect pf env key = None"
    using assms(4-6) by (rule short_link_redirect_unparseable)
  then have through: "fetch pf request env = (bucket_get env key, env)"
    using assms(1-3) by (simp add: fetch_def handle_GET_def Let_def)
  have "short_link_redirect pf (env\<lparr>SHORT_LINKS := Some (kv(key := None))\<rparr>) key = None"
    by (simp add: short_link_redirect_no_entry)
  then have absent: "fst (fetch pf request (env\<lparr>SHORT_LINKS := Some (kv(key := None))\<rparr>)) =
      bucket_get env key"
    using assms(1-3) by (simp add: fetch_def handle_GET_def Let_def bucket_get_SHORT_LINKS)
  show ?thesis
    using through absent
    by (auto simp: bucket_get_def bindE_def or_throw_def split: option.splits)
qed

theorem unparseable_entry_falls_through_witness:
  "fetch sample_platform get_a
     (sample_env\<lparr>SHORT_LINKS := Some [''a'' \<mapsto> ''not json''],
                  PUBLIC_BUCKET := Some [''a'' \<mapsto> sample_object]\<rparr>) =
   (Inr \<lparr>status = 200,
         headers = headers_set ''etag'' (httpEtag sample_object) (httpMetadata sample_object),
         content = Stream ''It worked!''\<rparr>,
    sample_env\<lparr>SHORT_LINKS := Some [''a'' \<mapsto> ''not json''],
                 PUBLIC_BUCKET := Some [''a'' \<mapsto> sample_object]\<rparr>)"
proof -
  let ?env = "sample_env\<lparr>SHORT_LINKS := Some [''a'' \<mapsto> ''not json''],
                          PUBLIC_BUCKET := Some [''a'' \<mapsto> sample_object]\<rparr>"
  have 1: "method get_a = ''GET''" by code_simp
  have 2: "drop 1 (pathname get_a) = ''a''" by code_simp
  have 3: "''a'' \<noteq> []" by simp
  have 4: "SHORT_LINKS ?env = Some [''a'' \<mapsto> ''not json'']" by simp
  have 5: "[''a'' \<mapsto> ''not json''] ''a'' = Some ''not json''" by simp
  have 6: "JSON_parse sample_platform ''not json'' = None" by code_simp
  have 7: "PUBLIC_BUCKET ?env = Some [''a'' \<mapsto> sample_object]" by simp
  show ?thesis
    using unparseable_entry_falls_through
            [OF 1 2 3 4 5 6, THEN conjunct2, THEN conjunct2, rule_format, OF 7]
    by (simp add: sample_object_def)
qed

section \<open>An object without a body\<close>

text \<open>
  C10. A GET for a non-empty key that has no short-link entry, where the bucket returns an
  object whose body is missing, answers 404 with the text \<open>Object Not Found: \<close> followed by
  the key.
\<close>

theorem bodyless_object_404:
  assumes "method request = ''GET''" and "drop 1 (pathname request) = key" and "key \<noteq> []"
    and "SHORT_LINKS env = None \<or> (\<exists>kv. SHORT_LINKS env = Some kv \<and> kv key = None)"
    and "PUBLIC_BUCKET env = Some bucket" and "bucket key = Some object"
    and "body object = None"
  shows "fetch pf request env =
     (Inr \<lparr>status = 404, headers = [], content = Text (''Object Not Found: '' @ key)\<rparr>, env)"
proof -
  have "short_link_redirect pf env key = None"
    using assms(4) short_link_redirect_unbound short_link_redirect_no_entry by blast
  moreover have "bucket_get env key =
      Inr \<lparr>status = 404, headers = [], content = Text (''Object Not Found: '' @ key)\<rparr>"
    using assms(5-7) by (simp add: bucket_get_def bindE_def or_throw_def)
  ultimately show ?thesis
    using assms(1-3) by (simp add: fetch_def handle_GET_def Let_def)
qed

theorem bodyless_object_404_witness:
  "fetch sample_platform get_a (sample_env\<lparr>PUBLIC_BUCKET := Some [''a'' \<mapsto> bodyless_object]\<rparr>) =
   (Inr \<lparr>status = 404, headers = [], content = Text ''Object Not Found: a''\<rparr>,
    sample_env\<lparr>PUBLIC_BUCKET := Some [''a'' \<mapsto> bodyless_object]\<rparr>)"
proof -
  let ?env = "sample_env\<lparr>PUBLIC_BUCKET := Some [''a'' \<mapsto> bodyless_object]\<rparr>"
  have 1: "method get_a = ''GET''" by code_simp
  have 2: "drop 1 (pathname get_a) = ''a''" by code_simp
  have 3: "''a'' \<noteq> []" by simp
  have 4: "SHORT_LINKS ?env = None \<or> (\<exists>kv. SHORT_LINKS ?env = Some kv \<and> kv ''a'' = None)"
    by (simp add: sample_env_def)
  have 5: "PUBLIC_BUCKET ?env = Some [''a'' \<mapsto> bodyless_object]" by simp
  have 6: "[''a'' \<mapsto> bodyless_object] ''a'' = Some bodyless_object" by simp
  have 7: "body bodyless_object = None" by (simp add: bodyless_object_def)
  show ?thesis
    using bodyless_object_404 [OF 1 2 3 4 5 6 7, of sample_platform] by simp
qed

end
